theory Spec2Isabelle
  imports Main "HOL-Library.Sublist"
begin

section \<open>JavaScript strings\<close>

text \<open>
  A JavaScript string is modelled as a \<^typ>\<open>string\<close>: a list of code units below 256.
  The empty string is falsy, every other string is truthy; a variable that is
  \<^verbatim>\<open>undefined\<close> is \<^term>\<open>None\<close> and falsy.
\<close>

definition truthy :: "string \<Rightarrow> bool" where
  "truthy s = (s \<noteq> [])"

definition truthy_opt :: "string option \<Rightarrow> bool" where
  "truthy_opt v = (case v of None \<Rightarrow> False | Some s \<Rightarrow> truthy s)"

text \<open>\<^verbatim>\<open>a || b\<close> where \<^verbatim>\<open>a\<close> may be undefined and \<^verbatim>\<open>b\<close> is a string.\<close>

definition or_else :: "string option \<Rightarrow> string \<Rightarrow> string" where
  "or_else a b = (case a of None \<Rightarrow> b | Some s \<Rightarrow> if truthy s then s else b)"

text \<open>\<^verbatim>\<open>xs[i]\<close>: undefined outside the array.\<close>

definition at :: "'a list \<Rightarrow> nat \<Rightarrow> 'a option" where
  "at xs i = (if i < length xs then Some (xs ! i) else None)"

text \<open>\<^verbatim>\<open>s.split(c)\<close> for a separator of one character: never the empty array.\<close>

fun split_str :: "char \<Rightarrow> string \<Rightarrow> string list" where
  "split_str c [] = [[]]"
| "split_str c (x # xs) =
     (if x = c then [] # split_str c xs
      else (case split_str c xs of
              [] \<Rightarrow> [[x]]
            | seg # segs \<Rightarrow> (x # seg) # segs))"

text \<open>\<^verbatim>\<open>s.includes(t)\<close>: \<^verbatim>\<open>t\<close> occurs in \<^verbatim>\<open>s\<close> as a contiguous block.\<close>

fun includes_str :: "string \<Rightarrow> string \<Rightarrow> bool" where
  "includes_str [] t = (t = [])"
| "includes_str (x # xs) t = (prefix t (x # xs) \<or> includes_str xs t)"

text \<open>
  \<^verbatim>\<open>s.toLowerCase()\<close> on code units below 256: the letters A to Z and the Latin-1
  capitals (0xC0 to 0xDE without the multiplication sign 0xD7) move up by 32, which is
  setting bit 5; nothing else changes.
\<close>

definition lower_char :: "char \<Rightarrow> char" where
  "lower_char c =
     (let n = (of_char c :: nat)
      in if (65 \<le> n \<and> n \<le> 90) \<or> (192 \<le> n \<and> n \<le> 222 \<and> n \<noteq> 215)
         then (case c of Char b0 b1 b2 b3 b4 b5 b6 b7 \<Rightarrow> Char b0 b1 b2 b3 b4 True b6 b7)
         else c)"

definition toLowerCase :: "string \<Rightarrow> string" where
  "toLowerCase s = map lower_char s"

text \<open>A template literal \<^verbatim>\<open>"${s}"\<close>: the text between two double quotes.\<close>

definition quoted :: "string \<Rightarrow> string" where
  "quoted s = CHR 0x22 # s @ [CHR 0x22]"

subsection \<open>\<^verbatim>\<open>JSON.stringify\<close>\<close>

datatype json = JString string | JBool bool | JObject "(string \<times> json) list"

definition hex_digit :: "nat \<Rightarrow> char" where
  "hex_digit n = ''0123456789abcdef'' ! (n mod 16)"

text \<open>One code unit inside a JSON string, as ECMAScript's QuoteJSONString writes it.\<close>

definition JSON_escape :: "char \<Rightarrow> string" where
  "JSON_escape c =
     (if c = CHR 0x08 then [CHR 0x5C, CHR ''b'']
      else if c = CHR 0x09 then [CHR 0x5C, CHR ''t'']
      else if c = CHR 0x0A then [CHR 0x5C, CHR ''n'']
      else if c = CHR 0x0C then [CHR 0x5C, CHR ''f'']
      else if c = CHR 0x0D then [CHR 0x5C, CHR ''r'']
      else if c = CHR 0x22 then [CHR 0x5C, CHR 0x22]
      else if c = CHR 0x5C then [CHR 0x5C, CHR 0x5C]
      else if (of_char c :: nat) < 32
        then [CHR 0x5C, CHR ''u'', CHR ''0'', CHR ''0'',
              hex_digit (of_char c div 16), hex_digit (of_char c)]
      else [c])"

definition JSON_quote :: "string \<Rightarrow> string" where
  "JSON_quote s = quoted (concat (map JSON_escape s))"

fun intercalate :: "string \<Rightarrow> string list \<Rightarrow> string" where
  "intercalate sep [] = []"
| "intercalate sep [x] = x"
| "intercalate sep (x # y # ys) = x @ sep @ intercalate sep (y # ys)"

fun JSON_stringify :: "json \<Rightarrow> string" where
  "JSON_stringify (JString s) = JSON_quote s"
| "JSON_stringify (JBool b) = (if b then ''true'' else ''false'')"
| "JSON_stringify (JObject members) =
     ''{'' @ intercalate '','' (map (\<lambda>m. JSON_quote (fst m) @ '':'' @ JSON_stringify (snd m)) members) @ ''}''"

section \<open>The host: environment, file system, subprocesses\<close>

text \<open>
  An exception is a JavaScript \<^verbatim>\<open>Error\<close>; the program reads nothing of it but its
  message. A failing call returns \<^term>\<open>Inl\<close> of the error.
\<close>

datatype js_error = Error (message: string)

text \<open>
  The options object handed to \<^verbatim>\<open>exec\<close>, its numbers as integers (bytes and
  milliseconds). A key the call does not give is
  \<^term>\<open>None\<close>; for \<^verbatim>\<open>timeout\<close> Node then applies its default 0, which is no
  limit on the run time.
\<close>

record exec_options =
  maxBuffer :: "int option"
  timeout :: "int option"

text \<open>
  The promise of \<^verbatim>\<open>execAsync\<close>: resolved with the two output streams, or rejected
  (non-zero exit, timeout, buffer overflow, no such executable) with an error message.
\<close>

datatype exec_result = Resolved string string | Rejected string

datatype node = Dir | File string

type_synonym store = "string \<Rightarrow> node option"

text \<open>
  What the program reads from its surroundings and cannot control:
  \<^verbatim>\<open>process.env\<close>, the platform name (\<^verbatim>\<open>process.platform\<close> and
  \<^verbatim>\<open>os.platform()\<close> are the same value), the platform's \<^verbatim>\<open>path.join\<close>, the
  paths at which the operating system refuses to create a directory or to write a file
  (with the message of the error it raises), and the outcome of each shell command under
  given options. One call of \<^verbatim>\<open>cloneRepo\<close> creates a directory or writes a file at
  any path at most once, and runs any command with given options at most once (the two
  version queries differ in their options), so tables that do not change during the call
  describe every run.
\<close>

record host =
  env :: "string \<Rightarrow> string option"
  platform :: string
  path_join :: "string \<Rightarrow> string \<Rightarrow> string"
  mkdir_fault :: "string \<Rightarrow> string option"
  write_fault :: "string \<Rightarrow> string option"
  exec :: "string \<Rightarrow> exec_options \<Rightarrow> exec_result"

text \<open>Every effect of the program, in the order it happens.\<close>

datatype event =
    ExistsSync string
  | MkdirSync string
  | WriteFileSync string string
  | Exec string exec_options
  | ConsoleLog string
  | ConsoleWarn string
  | ConsoleError string string

text \<open>
  The state the program runs in: the paths that exist and the effects so far. The paths
  are those of the start of the call and those the program's own file-system calls add;
  what git writes to the disk is not tracked, the program never looks at it again within
  the call.
\<close>

record world =
  files :: store
  trace :: "event list"

definition emit :: "event \<Rightarrow> world \<Rightarrow> world" where
  "emit e w = w\<lparr>trace := trace w @ [e]\<rparr>"

definition existsSync :: "string \<Rightarrow> world \<Rightarrow> bool \<times> world" where
  "existsSync p w = (files w p \<noteq> None, emit (ExistsSync p) w)"

text \<open>\<^verbatim>\<open>mkdirSync(p, { recursive: true })\<close>\<close>

definition mkdirSync :: "host \<Rightarrow> string \<Rightarrow> world \<Rightarrow> (js_error + unit) \<times> world" where
  "mkdirSync h p w =
     (case mkdir_fault h p of
        Some m \<Rightarrow> (Inl (Error m), emit (MkdirSync p) w)
      | None \<Rightarrow> (Inr (), emit (MkdirSync p) (w\<lparr>files := (files w)(p \<mapsto> Dir)\<rparr>)))"

definition writeFileSync :: "host \<Rightarrow> string \<Rightarrow> string \<Rightarrow> world \<Rightarrow> (js_error + unit) \<times> world" where
  "writeFileSync h p body w =
     (case write_fault h p of
        Some m \<Rightarrow> (Inl (Error m), emit (WriteFileSync p body) w)
      | None \<Rightarrow> (Inr (), emit (WriteFileSync p body) (w\<lparr>files := (files w)(p \<mapsto> File body)\<rparr>)))"

definition execAsync :: "host \<Rightarrow> string \<Rightarrow> exec_options \<Rightarrow> world \<Rightarrow> exec_result \<times> world" where
  "execAsync h cmd opts w = (exec h cmd opts, emit (Exec cmd opts) w)"

text \<open>Sequencing of two steps when the first may throw.\<close>

definition then_do ::
  "(world \<Rightarrow> (js_error + 'a) \<times> world) \<Rightarrow> ('a \<Rightarrow> world \<Rightarrow> (js_error + 'b) \<times> world) \<Rightarrow>
   world \<Rightarrow> (js_error + 'b) \<times> world" where
  "then_do m f w = (case m w of (Inl e, w') \<Rightarrow> (Inl e, w') | (Inr x, w') \<Rightarrow> f x w')"

section \<open>\<^verbatim>\<open>cloneRepo\<close> (src/lib/git/cloneRepo.ts)\<close>

subsection \<open>Lines 17 to 23: the repository format\<close>

definition parseRepo :: "string \<Rightarrow> js_error + string \<times> string" where
  "parseRepo repo =
     (let repoParts = split_str CHR ''/'' repo
      in if length repoParts \<noteq> 2 \<or> \<not> truthy_opt (at repoParts 0) \<or> \<not> truthy_opt (at repoParts 1)
         then Inl (Error (''Invalid repository format: '' @ repo @ ''. Expected format: owner/repo''))
         else Inr (repoParts ! 0, repoParts ! 1))"

subsection \<open>Lines 28 to 46: serverless detection\<close>

text \<open>The disjunction of lines 28 to 33; only its truthiness is ever used.\<close>

definition isServerless_env :: "host \<Rightarrow> bool" where
  "isServerless_env h =
     (env h ''VERCEL'' = Some ''1''
      \<or> truthy_opt (env h ''VERCEL'')
      \<or> truthy_opt (env h ''AWS_LAMBDA_FUNCTION_NAME'')
      \<or> truthy_opt (env h ''VERCEL_ENV'')
      \<or> (\<not> truthy_opt (env h ''TEMP'') \<and> \<not> truthy_opt (env h ''TMP'') \<and> platform h \<noteq> ''win32''))"

definition isServerless :: "host \<Rightarrow> world \<Rightarrow> bool \<times> world" where
  "isServerless h w =
     (if \<not> isServerless_env h
      then (case execAsync h ''git --version''
                   \<lparr>maxBuffer = Some (1024 * 1024), timeout = Some 2000\<rparr> w of
              (Resolved out err, w') \<Rightarrow> (False, w')
            | (Rejected m, w') \<Rightarrow>
                (True, emit (ConsoleLog ''[cloneRepo] Git not available, using serverless mode'') w'))
      else (True, w))"

subsection \<open>Lines 48 to 70: the serverless branch\<close>

text \<open>\<^verbatim>\<open>if (!existsSync(d)) { mkdirSync(d, { recursive: true }); }\<close> (lines 53, 58 and 79)\<close>

definition ensureDir :: "host \<Rightarrow> string \<Rightarrow> world \<Rightarrow> (js_error + unit) \<times> world" where
  "ensureDir h d w =
     (case existsSync d w of
        (True, w') \<Rightarrow> (Inr (), w')
      | (False, w') \<Rightarrow> mkdirSync h d w')"

definition serverless_targetDir :: "host \<Rightarrow> string \<Rightarrow> string \<Rightarrow> string" where
  "serverless_targetDir h owner repoName =
     (let tempBase = ''/tmp'';
          bugsmithDir = path_join h tempBase ''bugsmith''
      in path_join h bugsmithDir (owner @ ''-'' @ repoName))"

text \<open>Lines 51 to 60: the two directories.\<close>

definition serverless_dirs :: "host \<Rightarrow> string \<Rightarrow> string \<Rightarrow> world \<Rightarrow> (js_error + string) \<times> world" where
  "serverless_dirs h owner repoName =
     (let tempBase = ''/tmp'';
          bugsmithDir = path_join h tempBase ''bugsmith''
      in then_do (ensureDir h bugsmithDir) (\<lambda>_.
           let targetDir = path_join h bugsmithDir (owner @ ''-'' @ repoName)
           in then_do (ensureDir h targetDir) (\<lambda>_ w. (Inr targetDir, w))))"

definition marker_body :: "string \<Rightarrow> string" where
  "marker_body repo =
     JSON_stringify (JObject [(''repo'', JString repo), (''cloned'', JBool False),
                              (''serverless'', JBool True)])"

definition serverless_branch :: "host \<Rightarrow> string \<Rightarrow> string \<Rightarrow> string \<Rightarrow> world \<Rightarrow> (js_error + string) \<times> world" where
  "serverless_branch h repo owner repoName =
     then_do (serverless_dirs h owner repoName) (\<lambda>targetDir.
       then_do (writeFileSync h (path_join h targetDir ''.bugsmith-serverless'') (marker_body repo)) (\<lambda>_ w.
         (Inr targetDir,
          emit (ConsoleLog (''Serverless mode: Created directory structure for '' @ repo @ '' at '' @ targetDir)) w)))"

subsection \<open>Lines 72 to 137: clone or update\<close>

definition tempBase :: "host \<Rightarrow> string" where
  "tempBase h =
     (if platform h = ''win32''
      then or_else (env h ''TEMP'') (or_else (env h ''TMP'') (''C:'' @ [CHR 0x5C] @ ''temp''))
      else ''/tmp'')"

definition git_targetDir :: "host \<Rightarrow> string \<Rightarrow> string \<Rightarrow> string" where
  "git_targetDir h owner repoName =
     (let bugsmithDir = path_join h (tempBase h) ''bugsmith''
      in path_join h bugsmithDir (owner @ ''-'' @ repoName))"

text \<open>Lines 72 to 84: the one directory this branch creates, and the target path.\<close>

definition git_dirs :: "host \<Rightarrow> string \<Rightarrow> string \<Rightarrow> world \<Rightarrow> (js_error + string) \<times> world" where
  "git_dirs h owner repoName =
     (let bugsmithDir = path_join h (tempBase h) ''bugsmith''
      in then_do (ensureDir h bugsmithDir) (\<lambda>_ w.
           (Inr (path_join h bugsmithDir (owner @ ''-'' @ repoName)), w)))"

definition gitMissing :: string where
  "gitMissing = ''Git is not installed or not in PATH. Please install Git to use this feature.''"

definition errorIndicators :: "string list" where
  "errorIndicators = [''fatal:'', ''error:'', ''Permission denied'', ''not found'']"

definition pull_cmd :: "string \<Rightarrow> string" where
  "pull_cmd targetDir = ''git -C '' @ quoted targetDir @ '' pull''"

definition repoUrl :: "string \<Rightarrow> string \<Rightarrow> string" where
  "repoUrl owner repoName = ''https://github.com/'' @ owner @ ''/'' @ repoName @ ''.git''"

definition clone_cmd :: "string \<Rightarrow> string \<Rightarrow> string \<Rightarrow> string" where
  "clone_cmd owner repoName targetDir =
     ''git clone '' @ repoUrl owner repoName @ '' '' @ quoted targetDir"

text \<open>Lines 106 to 127: the body of the inner \<^verbatim>\<open>try\<close>.\<close>

definition clone_try :: "host \<Rightarrow> string \<Rightarrow> string \<Rightarrow> string \<Rightarrow> world \<Rightarrow> (js_error + unit) \<times> world" where
  "clone_try h owner repoName targetDir w =
     (case execAsync h ''git --version'' \<lparr>maxBuffer = Some (1024 * 1024), timeout = None\<rparr> w of
        (Rejected gitCheckError, w1) \<Rightarrow> (Inl (Error gitMissing), w1)
      | (Resolved out err, w1) \<Rightarrow>
          (case execAsync h (clone_cmd owner repoName targetDir)
                  \<lparr>maxBuffer = Some (10 * 1024 * 1024), timeout = None\<rparr> w1 of
             (Rejected m, w2) \<Rightarrow> (Inl (Error m), w2)
           | (Resolved stdout stderr, w2) \<Rightarrow>
               if truthy stderr \<and> \<not> includes_str stderr ''Cloning into''
                  \<and> \<not> includes_str stderr ''remote:''
               then (if list_ex (\<lambda>indicator. includes_str (toLowerCase stderr) (toLowerCase indicator))
                          errorIndicators
                     then (Inl (Error (''Git clone error: '' @ stderr)), w2)
                     else (Inr (), w2))
               else (Inr (), w2)))"

text \<open>Lines 128 to 134: the inner \<^verbatim>\<open>catch\<close>, which throws again.\<close>

definition clone_catch :: "js_error \<Rightarrow> js_error" where
  "clone_catch error =
     (if includes_str (message error) ''git''
         \<and> (includes_str (message error) ''not found'' \<or> includes_str (message error) ''not in PATH'')
      then Error gitMissing
      else error)"

text \<open>Lines 103 to 137.\<close>

definition clone_attempt :: "host \<Rightarrow> string \<Rightarrow> string \<Rightarrow> string \<Rightarrow> string \<Rightarrow> world \<Rightarrow> (js_error + string) \<times> world" where
  "clone_attempt h repo owner repoName targetDir w =
     (case clone_try h owner repoName targetDir w of
        (Inl error, w') \<Rightarrow> (Inl (clone_catch error), w')
      | (Inr _, w') \<Rightarrow>
          (Inr targetDir,
           emit (ConsoleLog (''Successfully cloned repository '' @ repo @ '' to '' @ targetDir)) w'))"

text \<open>Lines 86 to 137: update an existing checkout, or fall through to the clone.\<close>

definition update_or_clone :: "host \<Rightarrow> string \<Rightarrow> string \<Rightarrow> string \<Rightarrow> string \<Rightarrow> world \<Rightarrow> (js_error + string) \<times> world" where
  "update_or_clone h repo owner repoName targetDir w =
     (case existsSync (path_join h targetDir ''.git'') w of
        (True, w1) \<Rightarrow>
          (case execAsync h (pull_cmd targetDir)
                  \<lparr>maxBuffer = Some (10 * 1024 * 1024), timeout = None\<rparr> w1 of
             (Resolved out err, w2) \<Rightarrow>
               (Inr targetDir, emit (ConsoleLog (''Updated existing repository '' @ repo)) w2)
           | (Rejected m, w2) \<Rightarrow>
               clone_attempt h repo owner repoName targetDir
                 (emit (ConsoleWarn (''Failed to update repository, will re-clone: '' @ m)) w2))
      | (False, w1) \<Rightarrow> clone_attempt h repo owner repoName targetDir w1)"

definition git_branch :: "host \<Rightarrow> string \<Rightarrow> string \<Rightarrow> string \<Rightarrow> world \<Rightarrow> (js_error + string) \<times> world" where
  "git_branch h repo owner repoName =
     then_do (git_dirs h owner repoName) (\<lambda>targetDir.
       update_or_clone h repo owner repoName targetDir)"

text \<open>
  The directory the call returns, and the part of the program that decides it and creates
  what it creates: lines 51 to 60 in the serverless branch, lines 72 to 84 otherwise.
\<close>

definition cache_path :: "host \<Rightarrow> bool \<Rightarrow> string \<Rightarrow> string \<Rightarrow> string" where
  "cache_path h degraded owner repoName =
     (if degraded then serverless_targetDir h owner repoName else git_targetDir h owner repoName)"

definition resolve :: "host \<Rightarrow> bool \<Rightarrow> string \<Rightarrow> string \<Rightarrow> world \<Rightarrow> (js_error + string) \<times> world" where
  "resolve h degraded owner repoName =
     (if degraded then serverless_dirs h owner repoName else git_dirs h owner repoName)"

subsection \<open>Lines 16 to 137: the body of the outer \<^verbatim>\<open>try\<close>\<close>

definition cloneRepo_try :: "host \<Rightarrow> string \<Rightarrow> world \<Rightarrow> (js_error + string) \<times> world" where
  "cloneRepo_try h repo w =
     (case parseRepo repo of
        Inl error \<Rightarrow> (Inl error, w)
      | Inr (owner, repoName) \<Rightarrow>
          (case isServerless h w of
             (True, w1) \<Rightarrow> serverless_branch h repo owner repoName w1
           | (False, w1) \<Rightarrow> git_branch h repo owner repoName w1))"

subsection \<open>Lines 138 to 143: the outer \<^verbatim>\<open>catch\<close>\<close>

definition failure_message :: "string \<Rightarrow> js_error \<Rightarrow> string" where
  "failure_message repo error =
     ''Failed to clone repository '' @ repo @ '': ''
       @ (if truthy (message error) then message error else ''Unknown error'')"

definition cloneRepo :: "host \<Rightarrow> string \<Rightarrow> world \<Rightarrow> (js_error + string) \<times> world" where
  "cloneRepo h repo w =
     (case cloneRepo_try h repo w of
        (Inr targetDir, w') \<Rightarrow> (Inr targetDir, w')
      | (Inl error, w') \<Rightarrow>
          (Inl (Error (failure_message repo error)),
           emit (ConsoleError (''Error cloning repository '' @ repo @ '':'') (message error)) w'))"

subsection \<open>Shorthand for the texts and options the program uses\<close>

abbreviation invalid_format :: "string \<Rightarrow> string" where
  "invalid_format repo \<equiv> ''Invalid repository format: '' @ repo @ ''. Expected format: owner/repo''"

text \<open>The options of the three kinds of subprocess calls (lines 39, 108, and 91 and 116).\<close>

abbreviation probe_opts :: exec_options where
  "probe_opts \<equiv> \<lparr>maxBuffer = Some (1024 * 1024), timeout = Some 2000\<rparr>"

abbreviation version_opts :: exec_options where
  "version_opts \<equiv> \<lparr>maxBuffer = Some (1024 * 1024), timeout = None\<rparr>"

abbreviation big_opts :: exec_options where
  "big_opts \<equiv> \<lparr>maxBuffer = Some (10 * 1024 * 1024), timeout = None\<rparr>"

text \<open>The test of lines 121 to 124 on the diagnostic text of a clone that exited with 0.\<close>

abbreviation clone_failed :: "string \<Rightarrow> bool" where
  "clone_failed stderr \<equiv>
     truthy stderr \<and> \<not> includes_str stderr ''Cloning into'' \<and> \<not> includes_str stderr ''remote:''
     \<and> list_ex (\<lambda>indicator. includes_str (toLowerCase stderr) (toLowerCase indicator)) errorIndicators"

section \<open>Concrete hosts\<close>

text \<open>
  Node's \<^verbatim>\<open>path.posix.join\<close> of two arguments: the non-empty arguments are joined
  with a slash and the result is normalised (empty and \<^verbatim>\<open>.\<close> segments dropped,
  \<^verbatim>\<open>..\<close> resolved against the segment before it).
\<close>

fun normalize_segments :: "bool \<Rightarrow> string list \<Rightarrow> string list \<Rightarrow> string list" where
  "normalize_segments allowAboveRoot res [] = rev res"
| "normalize_segments allowAboveRoot res (seg # segs) =
     (if seg = [] \<or> seg = ''.'' then normalize_segments allowAboveRoot res segs
      else if seg = ''..'' then
        (case res of
           [] \<Rightarrow> normalize_segments allowAboveRoot (if allowAboveRoot then [''..''] else []) segs
         | prev # below \<Rightarrow>
             if prev = ''..''
             then normalize_segments allowAboveRoot (if allowAboveRoot then ''..'' # res else res) segs
             else normalize_segments allowAboveRoot below segs)
      else normalize_segments allowAboveRoot (seg # res) segs)"

definition posix_normalize :: "string \<Rightarrow> string" where
  "posix_normalize path =
     (if path = [] then ''.''
      else
        (let isAbsolute = (hd path = CHR ''/'');
             trailingSeparator = (last path = CHR ''/'');
             p = intercalate ''/'' (normalize_segments (\<not> isAbsolute) [] (split_str CHR ''/'' path))
         in if p = [] then (if isAbsolute then ''/'' else if trailingSeparator then ''./'' else ''.'')
            else (if isAbsolute then ''/'' else []) @ p @ (if trailingSeparator then ''/'' else [])))"

definition posix_join :: "string \<Rightarrow> string \<Rightarrow> string" where
  "posix_join a b =
     (case filter (\<lambda>arg. arg \<noteq> []) [a, b] of
        [] \<Rightarrow> ''.''
      | args \<Rightarrow> posix_normalize (intercalate ''/'' args))"

definition no_fault :: "string \<Rightarrow> string option" where
  "no_fault p = None"

definition empty_world :: world where
  "empty_world = \<lparr>files = Map.empty, trace = []\<rparr>"

text \<open>A file system that holds an earlier checkout of octocat/Hello-World.\<close>

definition checkout_world :: world where
  "checkout_world =
     \<lparr>files = [''/tmp/bugsmith'' \<mapsto> Dir,
               ''/tmp/bugsmith/octocat-Hello-World'' \<mapsto> Dir,
               ''/tmp/bugsmith/octocat-Hello-World/.git'' \<mapsto> Dir],
      trace = []\<rparr>"

text \<open>A serverless deployment: the platform flag is set and there is no git.\<close>

definition vercel_host :: host where
  "vercel_host =
     \<lparr>env = [''VERCEL'' \<mapsto> ''1''], platform = ''linux'', path_join = posix_join,
      mkdir_fault = no_fault, write_fault = no_fault,
      exec = (\<lambda>cmd opts. Rejected (''Command failed: '' @ cmd))\<rparr>"

text \<open>The same deployment on a file system mounted read-only.\<close>

definition readonly_host :: host where
  "readonly_host =
     vercel_host\<lparr>mkdir_fault := (\<lambda>p. Some (''EROFS: read-only file system, mkdir '' @ p)),
                 write_fault := (\<lambda>p. Some (''EROFS: read-only file system, open '' @ p))\<rparr>"

text \<open>
  A development machine: Linux with \<^verbatim>\<open>TMP\<close> set, and a git whose answers are given
  by \<open>git\<close>.
\<close>

definition dev_host :: "(string \<Rightarrow> exec_options \<Rightarrow> exec_result) \<Rightarrow> host" where
  "dev_host git =
     \<lparr>env = [''TMP'' \<mapsto> ''/tmp''], platform = ''linux'', path_join = posix_join,
      mkdir_fault = no_fault, write_fault = no_fault, exec = git\<rparr>"

text \<open>A git that is installed and exits with 0; \<^verbatim>\<open>git clone\<close> writes \<open>stderr\<close>.\<close>

definition git_says :: "string \<Rightarrow> string \<Rightarrow> exec_options \<Rightarrow> exec_result" where
  "git_says stderr cmd opts = Resolved [] (if take 9 cmd = ''git clone'' then stderr else [])"


text \<open>A machine without git: the shell finds no such command.\<close>

definition no_git :: "string \<Rightarrow> exec_options \<Rightarrow> exec_result" where
  "no_git cmd opts = Rejected (''Command failed: '' @ cmd @ [CHR 0x0A] @ ''/bin/sh: 1: git: not found'')"

text \<open>
  A git that answers the classifier's version query (the one with a timeout) and is gone
  when the version query before the clone is made.
\<close>

definition git_vanished :: "string \<Rightarrow> exec_options \<Rightarrow> exec_result" where
  "git_vanished cmd opts =
     (if cmd = ''git --version'' \<and> timeout opts = None
      then Rejected (''Command failed: git --version'' @ [CHR 0x0A] @ ''/bin/sh: 1: git: not found'')
      else Resolved [] [])"

text \<open>A git that is installed, whose \<^verbatim>\<open>pull\<close> fails and whose \<^verbatim>\<open>clone\<close> succeeds.\<close>

definition git_pull_fails :: "string \<Rightarrow> exec_options \<Rightarrow> exec_result" where
  "git_pull_fails cmd opts =
     (if take 6 cmd = ''git -C''
      then Rejected (''Command failed: '' @ cmd @ [CHR 0x0A] @ ''fatal: unable to access the remote'')
      else Resolved [] [])"

text \<open>A git that is installed and cannot reach the remote: only the version query succeeds.\<close>

definition git_offline :: "string \<Rightarrow> exec_options \<Rightarrow> exec_result" where
  "git_offline cmd opts =
     (if cmd = ''git --version''
      then Resolved [] []
      else Rejected (''Command failed: '' @ cmd @ [CHR 0x0A] @ ''fatal: unable to access the remote''))"

text \<open>
  The development machine with git, started with
  \<^verbatim>\<open>AWS_LAMBDA_FUNCTION_NAME= node ...\<close>: the variable is set, to the empty string.
\<close>

definition empty_lambda_host :: host where
  "empty_lambda_host =
     (dev_host (git_says []))\<lparr>env := [''AWS_LAMBDA_FUNCTION_NAME'' \<mapsto> [], ''TMP'' \<mapsto> ''/tmp'']\<rparr>"

section \<open>The claims in the words of the specification\<close>

text \<open>
  The four environment heuristics of the classifier, a variable counting as set when it
  has a non-empty value.
\<close>

definition nonempty_var :: "host \<Rightarrow> string \<Rightarrow> bool" where
  "nonempty_var h name = (env h name \<noteq> None \<and> env h name \<noteq> Some [])"

definition env_heuristics :: "host \<Rightarrow> bool" where
  "env_heuristics h =
     (nonempty_var h ''VERCEL''
      \<or> nonempty_var h ''AWS_LAMBDA_FUNCTION_NAME''
      \<or> nonempty_var h ''VERCEL_ENV''
      \<or> (\<not> nonempty_var h ''TEMP'' \<and> \<not> nonempty_var h ''TMP'' \<and> platform h \<noteq> ''win32''))"

text \<open>An effect that starts a subprocess.\<close>

definition spawns :: "event \<Rightarrow> bool" where
  "spawns e = (case e of Exec cmd opts \<Rightarrow> True | _ \<Rightarrow> False)"

text \<open>A step of the program that starts no subprocess, whatever state it runs in.\<close>

definition no_spawn :: "(world \<Rightarrow> 'a \<times> world) \<Rightarrow> bool" where
  "no_spawn m = (\<forall>w. \<exists>evs. trace (snd (m w)) = trace w @ evs \<and> filter spawns evs = [])"

text \<open>An effect that starts \<^verbatim>\<open>git clone\<close>.\<close>

definition is_git_clone :: "event \<Rightarrow> bool" where
  "is_git_clone e = (case e of Exec cmd opts \<Rightarrow> take 9 cmd = ''git clone'' | _ \<Rightarrow> False)"

text \<open>
  The causes a failed call can have: the message of a refusal by the file system, and the
  message of a failed clone (of the rejected process, or the diagnostic text of one that
  exited with 0 and was taken as failed).
\<close>

definition fs_refusal :: "host \<Rightarrow> string \<Rightarrow> bool" where
  "fs_refusal h c = ((\<exists>p. mkdir_fault h p = Some c) \<or> (\<exists>p. write_fault h p = Some c))"

definition clone_failure :: "host \<Rightarrow> string \<Rightarrow> bool" where
  "clone_failure h c =
     (\<exists>cmd opts. take 9 cmd = ''git clone''
        \<and> (exec h cmd opts = Rejected c
           \<or> (\<exists>out err. exec h cmd opts = Resolved out err \<and> c = ''Git clone error: '' @ err)))"

section \<open>Splitting at the slash\<close>

lemma split_str_not_Nil [simp]: "split_str c s \<noteq> []"
  by (induction s) (simp_all split: list.splits)

lemma split_str_no_sep: "c \<notin> set s \<Longrightarrow> split_str c s = [s]"
  by (induction s) auto

lemma split_str_sep: "c \<notin> set a \<Longrightarrow> split_str c (a @ c # b) = a # split_str c b"
  by (induction a) auto

lemma split_str_Cons:
  "split_str c s = seg # segs \<Longrightarrow>
     c \<notin> set seg \<and>
     ((segs = [] \<and> s = seg) \<or> (\<exists>rest. s = seg @ c # rest \<and> split_str c rest = segs))"
proof (induction s arbitrary: seg segs)
  case Nil
  then show ?case by simp
next
  case (Cons x xs)
  show ?case
  proof (cases "x = c")
    case True
    with Cons.prems have "seg = []" "split_str c xs = segs" by simp_all
    with True show ?thesis by simp
  next
    case False
    obtain seg' segs' where s': "split_str c xs = seg' # segs'"
      by (cases "split_str c xs") simp_all
    with False Cons.prems have eq: "seg = x # seg'" "segs = segs'" by simp_all
    from Cons.IH [OF s'] have ih: "c \<notin> set seg'"
      "(segs' = [] \<and> xs = seg') \<or> (\<exists>rest. xs = seg' @ c # rest \<and> split_str c rest = segs')"
      by blast+
    from ih(2) show ?thesis
    proof
      assume "segs' = [] \<and> xs = seg'"
      with eq ih(1) False show ?thesis by simp
    next
      assume "\<exists>rest. xs = seg' @ c # rest \<and> split_str c rest = segs'"
      then obtain rest where "xs = seg' @ c # rest" "split_str c rest = segs'" by blast
      with eq ih(1) False show ?thesis by simp
    qed
  qed
qed

lemma split_str_two_iff:
  "split_str c s = [a, b] \<longleftrightarrow> s = a @ c # b \<and> c \<notin> set a \<and> c \<notin> set b"
proof
  assume two: "split_str c s = [a, b]"
  from split_str_Cons [OF two] obtain rest
    where a: "c \<notin> set a" and s: "s = a @ c # rest" and rest: "split_str c rest = [b]"
    by blast
  from split_str_Cons [OF rest] have "c \<notin> set b" "rest = b" by auto
  with a s show "s = a @ c # b \<and> c \<notin> set a \<and> c \<notin> set b" by simp
next
  assume "s = a @ c # b \<and> c \<notin> set a \<and> c \<notin> set b"
  then show "split_str c s = [a, b]"
    by (simp add: split_str_sep split_str_no_sep)
qed

lemma length_two_iff: "length xs = 2 \<longleftrightarrow> (\<exists>a b. xs = [a, b])"
proof (cases xs)
  case Nil
  then show ?thesis by simp
next
  case (Cons a ys)
  then show ?thesis by (cases ys) simp_all
qed

lemma parseRepo_two:
  "split_str CHR ''/'' repo = [a, b] \<Longrightarrow>
     parseRepo repo = (if a \<noteq> [] \<and> b \<noteq> [] then Inr (a, b) else Inl (Error (invalid_format repo)))"
  by (simp add: parseRepo_def at_def truthy_opt_def truthy_def)

lemma parseRepo_not_two:
  "length (split_str CHR ''/'' repo) \<noteq> 2 \<Longrightarrow> parseRepo repo = Inl (Error (invalid_format repo))"
  by (simp add: parseRepo_def Let_def)

lemma parseRepo_Inr_iff:
  "parseRepo repo = Inr (owner, repoName) \<longleftrightarrow>
     split_str CHR ''/'' repo = [owner, repoName] \<and> owner \<noteq> [] \<and> repoName \<noteq> []"
proof (cases "length (split_str CHR ''/'' repo) = 2")
  case True
  then have "\<exists>a b. split_str CHR ''/'' repo = [a, b]"
    by (simp only: length_two_iff)
  then obtain a b where ab: "split_str CHR ''/'' repo = [a, b]"
    by (elim exE)
  have p: "parseRepo repo =
      (if a \<noteq> [] \<and> b \<noteq> [] then Inr (a, b) else Inl (Error (invalid_format repo)))"
    by (rule parseRepo_two [OF ab])
  show ?thesis
    by (simp add: p ab) blast
next
  case False
  then have "split_str CHR ''/'' repo \<noteq> [owner, repoName]" by auto
  then show ?thesis
    unfolding parseRepo_not_two [OF False] by simp
qed

lemma parseRepo_Inl:
  "parseRepo repo = Inl e \<Longrightarrow> e = Error (invalid_format repo)"
  by (simp add: parseRepo_def Let_def split: if_splits)

lemma parseRepo_cases:
  "parseRepo repo = Inl (Error (invalid_format repo)) \<or>
   (\<exists>owner repoName. parseRepo repo = Inr (owner, repoName))"
proof (cases "parseRepo repo")
  case (Inl e)
  then show ?thesis using parseRepo_Inl [OF Inl] by simp
next
  case (Inr p)
  then show ?thesis by (cases p) simp
qed

lemma cloneRepo_invalid:
  assumes "parseRepo repo = Inl e"
  shows "cloneRepo h repo w =
    (Inl (Error (''Failed to clone repository '' @ repo @ '': '' @ invalid_format repo)),
     w\<lparr>trace := trace w @
        [ConsoleError (''Error cloning repository '' @ repo @ '':'') (invalid_format repo)]\<rparr>)"
proof -
  have e: "e = Error (invalid_format repo)"
    by (rule parseRepo_Inl [OF assms])
  show ?thesis
    using assms unfolding e
    by (simp add: cloneRepo_def cloneRepo_try_def failure_message_def truthy_def emit_def)
qed

section \<open>Substrings\<close>

lemma includes_str_iff_sublist: "includes_str s t \<longleftrightarrow> sublist t s"
  by (induction s) (simp_all add: sublist_Cons_right)

lemma sublist_map_iff: "sublist v (map f s) \<longleftrightarrow> (\<exists>u. sublist u s \<and> map f u = v)"
proof
  assume "sublist v (map f s)"
  then obtain ps ss where "map f s = ps @ (v @ ss)"
    unfolding sublist_def by blast
  then have "\<exists>us vs. s = us @ vs \<and> ps = map f us \<and> v @ ss = map f vs"
    by (simp only: map_eq_append_conv)
  then obtain us vs where s: "s = us @ vs" and vs: "v @ ss = map f vs"
    by blast
  from vs have "\<exists>u t. vs = u @ t \<and> v = map f u \<and> ss = map f t"
    by (simp only: append_eq_map_conv)
  then obtain u t where "vs = u @ t" "v = map f u"
    by blast
  with s have "s = us @ u @ t" "map f u = v" by simp_all
  then show "\<exists>u. sublist u s \<and> map f u = v"
    unfolding sublist_def by blast
next
  assume "\<exists>u. sublist u s \<and> map f u = v"
  then show "sublist v (map f s)"
    using map_mono_sublist by blast
qed

lemma includes_lower_iff:
  "includes_str (toLowerCase s) (toLowerCase marker) \<longleftrightarrow>
     (\<exists>u. sublist u s \<and> toLowerCase u = toLowerCase marker)"
  unfolding includes_str_iff_sublist toLowerCase_def sublist_map_iff ..

lemma clone_try_resolved:
  assumes "exec h ''git --version'' version_opts = Resolved out err"
      and "exec h (clone_cmd owner repoName targetDir) big_opts = Resolved stdout stderr"
  shows "fst (clone_try h owner repoName targetDir w) =
     (if stderr \<noteq> [] \<and> \<not> includes_str stderr ''Cloning into'' \<and> \<not> includes_str stderr ''remote:''
         \<and> list_ex (\<lambda>indicator. includes_str (toLowerCase stderr) (toLowerCase indicator)) errorIndicators
      then Inl (Error (''Git clone error: '' @ stderr)) else Inr ())"
  using assms by (simp add: clone_try_def execAsync_def truthy_def)

lemma no_marker_in_empty:
  "\<not> list_ex (\<lambda>indicator. includes_str (toLowerCase []) (toLowerCase indicator)) errorIndicators"
  by (simp add: errorIndicators_def toLowerCase_def)

section \<open>Serverless detection\<close>

lemma truthy_opt_iff: "truthy_opt (env h name) \<longleftrightarrow> nonempty_var h name"
  by (cases "env h name") (simp_all add: truthy_opt_def truthy_def nonempty_var_def)

lemma isServerless_env_iff: "isServerless_env h \<longleftrightarrow> env_heuristics h"
proof -
  have "env h ''VERCEL'' = Some ''1'' \<Longrightarrow> nonempty_var h ''VERCEL''"
    by (simp add: nonempty_var_def)
  then show ?thesis
    unfolding isServerless_env_def env_heuristics_def truthy_opt_iff by blast
qed

lemma isServerless_heuristics: "env_heuristics h \<Longrightarrow> isServerless h w = (True, w)"
  by (simp add: isServerless_def isServerless_env_iff)

lemma isServerless_probe:
  "\<not> env_heuristics h \<Longrightarrow>
     isServerless h w =
       (case exec h ''git --version'' \<lparr>maxBuffer = Some (1024 * 1024), timeout = Some 2000\<rparr> of
          Resolved out err \<Rightarrow>
            (False, w\<lparr>trace := trace w @
               [Exec ''git --version'' \<lparr>maxBuffer = Some (1024 * 1024), timeout = Some 2000\<rparr>]\<rparr>)
        | Rejected m \<Rightarrow>
            (True, w\<lparr>trace := trace w @
               [Exec ''git --version'' \<lparr>maxBuffer = Some (1024 * 1024), timeout = Some 2000\<rparr>,
                ConsoleLog ''[cloneRepo] Git not available, using serverless mode'']\<rparr>))"
  by (simp add: isServerless_def isServerless_env_iff execAsync_def emit_def split: exec_result.splits)


lemma cloneRepo_try_probe_rejected:
  assumes "parseRepo repo = Inr (owner, repoName)" and "\<not> env_heuristics h"
      and "exec h ''git --version'' \<lparr>maxBuffer = Some (1024 * 1024), timeout = Some 2000\<rparr> = Rejected m"
  shows "cloneRepo_try h repo w =
           serverless_branch h repo owner repoName
             (w\<lparr>trace := trace w @
               [Exec ''git --version'' \<lparr>maxBuffer = Some (1024 * 1024), timeout = Some 2000\<rparr>,
                ConsoleLog ''[cloneRepo] Git not available, using serverless mode'']\<rparr>)"
  using assms by (simp add: cloneRepo_try_def isServerless_probe)

section \<open>Sequencing and the directories\<close>

lemma then_do_Inr: "m w = (Inr x, w') \<Longrightarrow> then_do m f w = f x w'"
  by (simp add: then_do_def)

lemma then_do_Inl: "m w = (Inl e, w') \<Longrightarrow> then_do m f w = (Inl e, w')"
  by (simp add: then_do_def)

lemma then_do_eq_Inr:
  "then_do m f w = (Inr y, w'') \<Longrightarrow> \<exists>x w'. m w = (Inr x, w') \<and> f x w' = (Inr y, w'')"
  by (cases "m w") (auto simp: then_do_def split: sum.splits)

lemma then_do_InrE:
  assumes "then_do m f w = (Inr y, w'')"
  obtains x w' where "m w = (Inr x, w')" and "f x w' = (Inr y, w'')"
  using then_do_eq_Inr [OF assms] by blast

lemma ensureDir_exists:
  "files w d \<noteq> None \<Longrightarrow> ensureDir h d w = (Inr (), emit (ExistsSync d) w)"
  by (simp add: ensureDir_def existsSync_def)

lemma files_emit [simp]: "files (emit e w) = files w"
  by (simp add: emit_def)

lemma trace_emit [simp]: "trace (emit e w) = trace w @ [e]"
  by (simp add: emit_def)

lemma ensureDir_Inr:
  assumes "ensureDir h d w = (Inr u, w')"
  shows "files w' d \<noteq> None" and "files w p \<noteq> None \<Longrightarrow> files w' p \<noteq> None"
  using assms
  by (auto simp: ensureDir_def existsSync_def mkdirSync_def split: if_splits option.splits bool.splits)

lemma serverless_dirs_Inr:
  assumes "serverless_dirs h owner repoName w = (Inr p, w')"
  shows "p = serverless_targetDir h owner repoName"
    and "files w' (path_join h ''/tmp'' ''bugsmith'') \<noteq> None"
    and "files w' p \<noteq> None"
proof -
  let ?b = "path_join h ''/tmp'' ''bugsmith''"
  let ?t = "path_join h ?b (owner @ ''-'' @ repoName)"
  from assms have "then_do (ensureDir h ?b)
      (\<lambda>_. then_do (ensureDir h ?t) (\<lambda>_ w. (Inr ?t, w))) w = (Inr p, w')"
    by (simp add: serverless_dirs_def Let_def)
  then obtain u w1 where 1: "ensureDir h ?b w = (Inr u, w1)"
    and r: "then_do (ensureDir h ?t) (\<lambda>_ w. (Inr ?t, w)) w1 = (Inr p, w')"
    by (rule then_do_InrE)
  from r obtain u' w2 where 2: "ensureDir h ?t w1 = (Inr u', w2)"
    and e: "(Inr ?t :: js_error + string, w2) = (Inr p, w')"
    by (rule then_do_InrE)
  from e have p: "p = ?t" and w2: "w2 = w'" by simp_all
  show "p = serverless_targetDir h owner repoName"
    using p by (simp add: serverless_targetDir_def)
  have "files w1 ?b \<noteq> None"
    by (rule ensureDir_Inr(1) [OF 1])
  then show "files w' ?b \<noteq> None"
    using ensureDir_Inr(2) [OF 2] w2 by simp
  show "files w' p \<noteq> None"
    using ensureDir_Inr(1) [OF 2] p w2 by simp
qed

lemma serverless_dirs_again:
  assumes "files w (path_join h ''/tmp'' ''bugsmith'') \<noteq> None"
      and "files w (serverless_targetDir h owner repoName) \<noteq> None"
  shows "serverless_dirs h owner repoName w =
     (Inr (serverless_targetDir h owner repoName),
      w\<lparr>trace := trace w @ [ExistsSync (path_join h ''/tmp'' ''bugsmith''),
                            ExistsSync (serverless_targetDir h owner repoName)]\<rparr>)"
  using assms
  by (simp add: serverless_dirs_def serverless_targetDir_def Let_def then_do_def ensureDir_exists emit_def)

lemma git_dirs_Inr:
  assumes "git_dirs h owner repoName w = (Inr p, w')"
  shows "p = git_targetDir h owner repoName"
    and "files w' (path_join h (tempBase h) ''bugsmith'') \<noteq> None"
proof -
  let ?b = "path_join h (tempBase h) ''bugsmith''"
  let ?t = "path_join h ?b (owner @ ''-'' @ repoName)"
  from assms have "then_do (ensureDir h ?b) (\<lambda>_ w. (Inr ?t, w)) w = (Inr p, w')"
    by (simp add: git_dirs_def Let_def)
  then obtain u w1 where 1: "ensureDir h ?b w = (Inr u, w1)"
    and e: "(Inr ?t :: js_error + string, w1) = (Inr p, w')"
    by (rule then_do_InrE)
  from e have p: "p = ?t" and w1: "w1 = w'" by simp_all
  show "p = git_targetDir h owner repoName"
    using p by (simp add: git_targetDir_def)
  show "files w' ?b \<noteq> None"
    using ensureDir_Inr(1) [OF 1] w1 by simp
qed

lemma git_dirs_again:
  assumes "files w (path_join h (tempBase h) ''bugsmith'') \<noteq> None"
  shows "git_dirs h owner repoName w =
     (Inr (git_targetDir h owner repoName),
      w\<lparr>trace := trace w @ [ExistsSync (path_join h (tempBase h) ''bugsmith'')]\<rparr>)"
  using assms
  by (simp add: git_dirs_def git_targetDir_def Let_def then_do_def ensureDir_exists emit_def)


lemma clone_attempt_Inr:
  "clone_attempt h repo owner repoName targetDir w = (Inr p, w') \<Longrightarrow> p = targetDir"
  by (cases "clone_try h owner repoName targetDir w")
     (auto simp: clone_attempt_def split: sum.splits)

lemma update_or_clone_Inr:
  assumes "update_or_clone h repo owner repoName targetDir w = (Inr p, w')"
  shows "p = targetDir"
proof (cases "files w (path_join h targetDir ''.git'') \<noteq> None")
  case False
  with assms show ?thesis
    by (simp add: update_or_clone_def existsSync_def clone_attempt_Inr)
next
  case True
  show ?thesis
  proof (cases "exec h (pull_cmd targetDir) \<lparr>maxBuffer = Some (10 * 1024 * 1024), timeout = None\<rparr>")
    case (Resolved out err)
    with True assms show ?thesis
      by (simp add: update_or_clone_def existsSync_def execAsync_def)
  next
    case (Rejected m)
    with True assms show ?thesis
      by (simp add: update_or_clone_def existsSync_def execAsync_def clone_attempt_Inr)
  qed
qed

lemma serverless_branch_Inr:
  assumes "serverless_branch h repo owner repoName w = (Inr p, w')"
  shows "p = serverless_targetDir h owner repoName"
proof -
  from assms obtain t w1 where 1: "serverless_dirs h owner repoName w = (Inr t, w1)"
    and r: "then_do (writeFileSync h (path_join h t ''.bugsmith-serverless'') (marker_body repo))
       (\<lambda>_ w. (Inr t,
          emit (ConsoleLog (''Serverless mode: Created directory structure for '' @ repo @ '' at '' @ t)) w))
       w1 = (Inr p, w')"
    unfolding serverless_branch_def by (rule then_do_InrE)
  from r obtain u w2 where
    "(Inr t :: js_error + string,
      emit (ConsoleLog (''Serverless mode: Created directory structure for '' @ repo @ '' at '' @ t)) w2)
       = (Inr p, w')"
    by (rule then_do_InrE)
  then have "p = t" by simp
  with serverless_dirs_Inr(1) [OF 1] show ?thesis by simp
qed

lemma git_branch_Inr:
  assumes "git_branch h repo owner repoName w = (Inr p, w')"
  shows "p = git_targetDir h owner repoName"
proof -
  from assms obtain t w1 where 1: "git_dirs h owner repoName w = (Inr t, w1)"
    and r: "update_or_clone h repo owner repoName t w1 = (Inr p, w')"
    unfolding git_branch_def by (rule then_do_InrE)
  from update_or_clone_Inr [OF r] git_dirs_Inr(1) [OF 1] show ?thesis by simp
qed

lemma cloneRepo_fst:
  "fst (cloneRepo h repo w) =
     (case fst (cloneRepo_try h repo w) of
        Inl error \<Rightarrow> Inl (Error (failure_message repo error))
      | Inr targetDir \<Rightarrow> Inr targetDir)"
  by (cases "cloneRepo_try h repo w") (simp add: cloneRepo_def split: sum.splits)

lemma cloneRepo_returns_cache_path:
  assumes "parseRepo repo = Inr (owner, repoName)" and "fst (cloneRepo h repo w) = Inr p"
  shows "p = cache_path h (fst (isServerless h w)) owner repoName"
proof -
  from assms(2) have t: "fst (cloneRepo_try h repo w) = Inr p"
    unfolding cloneRepo_fst by (simp split: sum.splits)
  obtain d w1 where c: "isServerless h w = (d, w1)"
    by (cases "isServerless h w")
  show ?thesis
  proof (cases d)
    case True
    with t c assms(1) have "fst (serverless_branch h repo owner repoName w1) = Inr p"
      by (simp add: cloneRepo_try_def)
    then have "serverless_branch h repo owner repoName w1 =
        (Inr p, snd (serverless_branch h repo owner repoName w1))"
      by (simp add: prod_eq_iff)
    from serverless_branch_Inr [OF this] True c show ?thesis
      by (simp add: cache_path_def)
  next
    case False
    with t c assms(1) have "fst (git_branch h repo owner repoName w1) = Inr p"
      by (simp add: cloneRepo_try_def)
    then have "git_branch h repo owner repoName w1 =
        (Inr p, snd (git_branch h repo owner repoName w1))"
      by (simp add: prod_eq_iff)
    from git_branch_Inr [OF this] False c show ?thesis
      by (simp add: cache_path_def)
  qed
qed

lemma resolve_Inr:
  assumes "resolve h degraded owner repoName w = (Inr p, w')"
  shows "p = cache_path h degraded owner repoName"
    and "resolve h degraded owner repoName w' =
      (Inr p, w'\<lparr>trace := trace w' @
         (if degraded
          then [ExistsSync (path_join h ''/tmp'' ''bugsmith''), ExistsSync p]
          else [ExistsSync (path_join h (tempBase h) ''bugsmith'')])\<rparr>)"
proof -
  show p: "p = cache_path h degraded owner repoName"
    using assms serverless_dirs_Inr(1) [of h owner repoName w p w']
      git_dirs_Inr(1) [of h owner repoName w p w']
    by (cases degraded) (simp_all add: resolve_def cache_path_def)
  show "resolve h degraded owner repoName w' =
      (Inr p, w'\<lparr>trace := trace w' @
         (if degraded
          then [ExistsSync (path_join h ''/tmp'' ''bugsmith''), ExistsSync p]
          else [ExistsSync (path_join h (tempBase h) ''bugsmith'')])\<rparr>)"
  proof (cases degraded)
    case True
    with assms have s: "serverless_dirs h owner repoName w = (Inr p, w')"
      by (simp add: resolve_def)
    from serverless_dirs_Inr [OF s] have
      "files w' (path_join h ''/tmp'' ''bugsmith'') \<noteq> None"
      "files w' (serverless_targetDir h owner repoName) \<noteq> None"
      "p = serverless_targetDir h owner repoName"
      by simp_all
    with True serverless_dirs_again [of w' h owner repoName] show ?thesis
      by (simp add: resolve_def)
  next
    case False
    with assms have s: "git_dirs h owner repoName w = (Inr p, w')"
      by (simp add: resolve_def)
    from git_dirs_Inr [OF s] have
      "files w' (path_join h (tempBase h) ''bugsmith'') \<noteq> None"
      "p = git_targetDir h owner repoName"
      by simp_all
    with False git_dirs_again [of w' h owner repoName] show ?thesis
      by (simp add: resolve_def)
  qed
qed

section \<open>The serverless branch\<close>

lemma no_spawnI:
  "(\<And>w. \<exists>evs. trace (snd (m w)) = trace w @ evs \<and> filter spawns evs = []) \<Longrightarrow> no_spawn m"
  by (simp add: no_spawn_def)

lemma no_spawnD:
  "no_spawn m \<Longrightarrow> \<exists>evs. trace (snd (m w)) = trace w @ evs \<and> filter spawns evs = []"
  by (simp add: no_spawn_def)

lemma no_spawn_then_do:
  assumes m: "no_spawn m" and f: "\<And>x. no_spawn (f x)"
  shows "no_spawn (then_do m f)"
proof (rule no_spawnI)
  fix w
  obtain r w1 where mw: "m w = (r, w1)" by (cases "m w")
  from no_spawnD [OF m, of w] mw obtain evs1
    where 1: "trace w1 = trace w @ evs1" "filter spawns evs1 = []" by auto
  show "\<exists>evs. trace (snd (then_do m f w)) = trace w @ evs \<and> filter spawns evs = []"
  proof (cases r)
    case (Inl e)
    with mw 1 show ?thesis by (simp add: then_do_def)
  next
    case (Inr x)
    from no_spawnD [OF f, of x w1] obtain evs2
      where 2: "trace (snd (f x w1)) = trace w1 @ evs2" "filter spawns evs2 = []" by auto
    from Inr mw have "then_do m f w = f x w1" by (simp add: then_do_def)
    with 1 2 have "trace (snd (then_do m f w)) = trace w @ (evs1 @ evs2)"
      "filter spawns (evs1 @ evs2) = []" by simp_all
    then show ?thesis by blast
  qed
qed

lemma no_spawn_ensureDir: "no_spawn (ensureDir h d)"
proof (rule no_spawnI)
  fix w
  show "\<exists>evs. trace (snd (ensureDir h d w)) = trace w @ evs \<and> filter spawns evs = []"
    by (cases "files w d"; cases "mkdir_fault h d")
       (simp_all add: ensureDir_def existsSync_def mkdirSync_def spawns_def)
qed

lemma no_spawn_writeFileSync: "no_spawn (writeFileSync h p body)"
proof (rule no_spawnI)
  fix w
  show "\<exists>evs. trace (snd (writeFileSync h p body w)) = trace w @ evs \<and> filter spawns evs = []"
    by (cases "write_fault h p") (simp_all add: writeFileSync_def spawns_def)
qed

lemma no_spawn_return: "no_spawn (\<lambda>w. (x, w))"
  by (rule no_spawnI) simp

lemma no_spawn_log: "no_spawn (\<lambda>w. (x, emit (ConsoleLog s) w))"
  by (rule no_spawnI) (simp add: spawns_def)

lemma no_spawn_serverless_dirs: "no_spawn (serverless_dirs h owner repoName)"
  unfolding serverless_dirs_def Let_def
  by (intro no_spawn_then_do no_spawn_ensureDir no_spawn_return)

lemma no_spawn_serverless_branch: "no_spawn (serverless_branch h repo owner repoName)"
  unfolding serverless_branch_def
  by (intro no_spawn_then_do no_spawn_serverless_dirs no_spawn_writeFileSync no_spawn_log)

lemma writeFileSync_Inr:
  "writeFileSync h p body w = (Inr u, w') \<Longrightarrow> files w' p = Some (File body)"
  by (cases "write_fault h p") (auto simp: writeFileSync_def)

lemma serverless_branch_marker:
  assumes "serverless_branch h repo owner repoName w = (Inr p, w')"
  shows "files w' (path_join h p ''.bugsmith-serverless'') = Some (File (marker_body repo))"
proof -
  from assms obtain t w1 where 1: "serverless_dirs h owner repoName w = (Inr t, w1)"
    and r: "then_do (writeFileSync h (path_join h t ''.bugsmith-serverless'') (marker_body repo))
       (\<lambda>_ w. (Inr t,
          emit (ConsoleLog (''Serverless mode: Created directory structure for '' @ repo @ '' at '' @ t)) w))
       w1 = (Inr p, w')"
    unfolding serverless_branch_def by (rule then_do_InrE)
  from r obtain u w2 where
    2: "writeFileSync h (path_join h t ''.bugsmith-serverless'') (marker_body repo) w1 = (Inr u, w2)"
    and e: "(Inr t :: js_error + string,
      emit (ConsoleLog (''Serverless mode: Created directory structure for '' @ repo @ '' at '' @ t)) w2)
       = (Inr p, w')"
    by (rule then_do_InrE)
  from e have pt: "p = t" by simp
  from e have "files w' = files w2" by auto
  with writeFileSync_Inr [OF 2] pt show ?thesis by simp
qed

lemma ensureDir_no_fault:
  "mkdir_fault h d = None \<Longrightarrow> fst (ensureDir h d w) = Inr ()"
  by (cases "files w d") (simp_all add: ensureDir_def existsSync_def mkdirSync_def)

lemma then_do_fst_Inr:
  assumes "fst (m w) = Inr x" and "\<And>w'. fst (f x w') = Inr y"
  shows "fst (then_do m f w) = Inr y"
  using assms by (cases "m w") (simp add: then_do_def)

lemma then_do_fst_Inr_unit:
  assumes "\<And>w. fst (m w) = Inr ()" and "\<And>w'. fst (f () w') = Inr y"
  shows "fst (then_do m f w) = Inr y"
  using assms(1) [of w] assms(2) by (cases "m w") (simp add: then_do_def)

lemma serverless_branch_no_fault:
  assumes "mkdir_fault h (path_join h ''/tmp'' ''bugsmith'') = None"
      and "mkdir_fault h (serverless_targetDir h owner repoName) = None"
      and "write_fault h (path_join h (serverless_targetDir h owner repoName) ''.bugsmith-serverless'') = None"
  shows "fst (serverless_branch h repo owner repoName w) = Inr (serverless_targetDir h owner repoName)"
proof -
  let ?b = "path_join h ''/tmp'' ''bugsmith''"
  let ?t = "serverless_targetDir h owner repoName"
  have t: "?t = path_join h ?b (owner @ ''-'' @ repoName)"
    by (simp add: serverless_targetDir_def)
  have e1: "fst (ensureDir h ?b w) = Inr ()" for w
    using assms(1) by (rule ensureDir_no_fault)
  have e2: "fst (ensureDir h ?t w) = Inr ()" for w
    using assms(2) by (rule ensureDir_no_fault)
  have inner: "fst (then_do (ensureDir h ?t) (\<lambda>_ w. (Inr ?t, w)) w) = Inr ?t" for w
    by (rule then_do_fst_Inr_unit) (rule e2, simp)
  have dirs: "fst (serverless_dirs h owner repoName w) = Inr ?t" for w
    unfolding serverless_dirs_def Let_def t [symmetric]
    by (rule then_do_fst_Inr_unit) (rule e1, rule inner)
  have wr: "fst (writeFileSync h (path_join h ?t ''.bugsmith-serverless'') body w) = Inr ()" for body w
    using assms(3) by (simp add: writeFileSync_def)
  have tail: "fst (then_do (writeFileSync h (path_join h ?t ''.bugsmith-serverless'') (marker_body repo))
       (\<lambda>_ w. (Inr ?t,
          emit (ConsoleLog (''Serverless mode: Created directory structure for '' @ repo @ '' at '' @ ?t)) w))
       w) = Inr ?t" for w
    by (rule then_do_fst_Inr_unit) (rule wr, simp)
  show ?thesis
    unfolding serverless_branch_def
    by (rule then_do_fst_Inr [where x = "?t"]) (rule dirs, rule tail)
qed

lemma cloneRepo_snd:
  "trace (snd (cloneRepo h repo w)) =
     trace (snd (cloneRepo_try h repo w)) @
       (case fst (cloneRepo_try h repo w) of
          Inl error \<Rightarrow> [ConsoleError (''Error cloning repository '' @ repo @ '':'') (message error)]
        | Inr targetDir \<Rightarrow> [])"
  "files (snd (cloneRepo h repo w)) = files (snd (cloneRepo_try h repo w))"
  by (cases "cloneRepo_try h repo w"; simp add: cloneRepo_def split: sum.splits)+

lemma cloneRepo_try_degraded:
  "parseRepo repo = Inr (owner, repoName) \<Longrightarrow> isServerless h w = (True, w1) \<Longrightarrow>
     cloneRepo_try h repo w = serverless_branch h repo owner repoName w1"
  by (simp add: cloneRepo_try_def)

lemma parseRepo_repo:
  "parseRepo repo = Inr (owner, repoName) \<Longrightarrow> repo = owner @ ''/'' @ repoName"
  unfolding parseRepo_Inr_iff split_str_two_iff by simp

section \<open>Clone or update\<close>

lemma clone_catch_gitMissing [simp]: "clone_catch (Error gitMissing) = Error gitMissing"
  by (simp add: clone_catch_def)

lemma clone_catch_cases: "clone_catch e = Error gitMissing \<or> clone_catch e = e"
  by (simp add: clone_catch_def)

lemma clone_try_probe_rejected:
  "exec h ''git --version'' version_opts = Rejected m \<Longrightarrow>
     clone_try h owner repoName t w =
       (Inl (Error gitMissing), w\<lparr>trace := trace w @ [Exec ''git --version'' version_opts]\<rparr>)"
  by (simp add: clone_try_def execAsync_def emit_def)

lemma clone_try_clone_rejected:
  "exec h ''git --version'' version_opts = Resolved out err \<Longrightarrow>
   exec h (clone_cmd owner repoName t) big_opts = Rejected m \<Longrightarrow>
     clone_try h owner repoName t w =
       (Inl (Error m),
        w\<lparr>trace := trace w @ [Exec ''git --version'' version_opts,
                              Exec (clone_cmd owner repoName t) big_opts]\<rparr>)"
  by (simp add: clone_try_def execAsync_def emit_def)

lemma clone_try_clone_resolved:
  "exec h ''git --version'' version_opts = Resolved out err \<Longrightarrow>
   exec h (clone_cmd owner repoName t) big_opts = Resolved stdout stderr \<Longrightarrow>
     clone_try h owner repoName t w =
       (if clone_failed stderr then Inl (Error (''Git clone error: '' @ stderr)) else Inr (),
        w\<lparr>trace := trace w @ [Exec ''git --version'' version_opts,
                              Exec (clone_cmd owner repoName t) big_opts]\<rparr>)"
  by (simp add: clone_try_def execAsync_def emit_def)

lemma clone_attempt_probe_rejected:
  "exec h ''git --version'' version_opts = Rejected m \<Longrightarrow>
     clone_attempt h repo owner repoName t w =
       (Inl (Error gitMissing), w\<lparr>trace := trace w @ [Exec ''git --version'' version_opts]\<rparr>)"
  by (simp add: clone_attempt_def clone_try_probe_rejected)

lemma clone_attempt_clone_rejected:
  "exec h ''git --version'' version_opts = Resolved out err \<Longrightarrow>
   exec h (clone_cmd owner repoName t) big_opts = Rejected m \<Longrightarrow>
     clone_attempt h repo owner repoName t w =
       (Inl (clone_catch (Error m)),
        w\<lparr>trace := trace w @ [Exec ''git --version'' version_opts,
                              Exec (clone_cmd owner repoName t) big_opts]\<rparr>)"
  by (simp add: clone_attempt_def clone_try_clone_rejected)

lemma clone_attempt_clone_resolved:
  "exec h ''git --version'' version_opts = Resolved out err \<Longrightarrow>
   exec h (clone_cmd owner repoName t) big_opts = Resolved stdout stderr \<Longrightarrow>
     clone_attempt h repo owner repoName t w =
       (if clone_failed stderr
        then (Inl (clone_catch (Error (''Git clone error: '' @ stderr))),
              w\<lparr>trace := trace w @ [Exec ''git --version'' version_opts,
                                    Exec (clone_cmd owner repoName t) big_opts]\<rparr>)
        else (Inr t,
              w\<lparr>trace := trace w @ [Exec ''git --version'' version_opts,
                                    Exec (clone_cmd owner repoName t) big_opts,
                                    ConsoleLog (''Successfully cloned repository '' @ repo @ '' to '' @ t)]\<rparr>))"
  by (simp add: clone_attempt_def clone_try_clone_resolved emit_def)

lemma clone_attempt_fst_any_world:
  "fst (clone_attempt h repo owner repoName t w) = fst (clone_attempt h repo owner repoName t v)"
proof (cases "exec h ''git --version'' version_opts")
  case (Rejected m)
  then show ?thesis by (simp add: clone_attempt_probe_rejected)
next
  case probe: (Resolved out err)
  show ?thesis
  proof (cases "exec h (clone_cmd owner repoName t) big_opts")
    case (Rejected m)
    with probe show ?thesis by (simp add: clone_attempt_clone_rejected)
  next
    case (Resolved stdout stderr)
    with probe show ?thesis by (simp add: clone_attempt_clone_resolved)
  qed
qed

lemma files_clone_attempt [simp]:
  "files (snd (clone_attempt h repo owner repoName t w)) = files w"
proof (cases "exec h ''git --version'' version_opts")
  case (Rejected m)
  then show ?thesis by (simp add: clone_attempt_probe_rejected)
next
  case probe: (Resolved out err)
  show ?thesis
  proof (cases "exec h (clone_cmd owner repoName t) big_opts")
    case (Rejected m)
    with probe show ?thesis by (simp add: clone_attempt_clone_rejected)
  next
    case (Resolved stdout stderr)
    with probe show ?thesis by (simp add: clone_attempt_clone_resolved)
  qed
qed

lemma update_or_clone_fresh:
  "files w (path_join h t ''.git'') = None \<Longrightarrow>
     update_or_clone h repo owner repoName t w =
       clone_attempt h repo owner repoName t (w\<lparr>trace := trace w @ [ExistsSync (path_join h t ''.git'')]\<rparr>)"
  by (simp add: update_or_clone_def existsSync_def emit_def)

lemma update_or_clone_pull_rejected:
  "files w (path_join h t ''.git'') \<noteq> None \<Longrightarrow> exec h (pull_cmd t) big_opts = Rejected m \<Longrightarrow>
     update_or_clone h repo owner repoName t w =
       clone_attempt h repo owner repoName t
         (w\<lparr>trace := trace w @
            [ExistsSync (path_join h t ''.git''), Exec (pull_cmd t) big_opts,
             ConsoleWarn (''Failed to update repository, will re-clone: '' @ m)]\<rparr>)"
  by (simp add: update_or_clone_def existsSync_def execAsync_def emit_def)

lemma update_or_clone_pull_resolved:
  "files w (path_join h t ''.git'') \<noteq> None \<Longrightarrow> exec h (pull_cmd t) big_opts = Resolved out err \<Longrightarrow>
     update_or_clone h repo owner repoName t w =
       (Inr t, w\<lparr>trace := trace w @
            [ExistsSync (path_join h t ''.git''), Exec (pull_cmd t) big_opts,
             ConsoleLog (''Updated existing repository '' @ repo)]\<rparr>)"
  by (simp add: update_or_clone_def existsSync_def execAsync_def emit_def)

lemma cloneRepo_try_git:
  assumes "parseRepo repo = Inr (owner, repoName)" and "isServerless h w = (False, w1)"
      and "git_dirs h owner repoName w1 = (Inr t, w2)"
  shows "cloneRepo_try h repo w = update_or_clone h repo owner repoName t w2"
  using assms by (simp add: cloneRepo_try_def git_branch_def then_do_def)

lemma cloneRepo_eq:
  "cloneRepo h repo w =
     (case fst (cloneRepo_try h repo w) of
        Inr targetDir \<Rightarrow> (Inr targetDir, snd (cloneRepo_try h repo w))
      | Inl error \<Rightarrow>
          (Inl (Error (failure_message repo error)),
           (snd (cloneRepo_try h repo w))
             \<lparr>trace := trace (snd (cloneRepo_try h repo w)) @
                [ConsoleError (''Error cloning repository '' @ repo @ '':'') (message error)]\<rparr>))"
  by (cases "cloneRepo_try h repo w") (simp add: cloneRepo_def emit_def split: sum.splits)

lemma failure_message_gitMissing:
  "failure_message repo (Error gitMissing) = ''Failed to clone repository '' @ repo @ '': '' @ gitMissing"
  by (simp add: failure_message_def truthy_def gitMissing_def)

lemma cloneRepo_fresh_probe_rejected:
  assumes "parseRepo repo = Inr (owner, repoName)" and "isServerless h w = (False, w1)"
      and "git_dirs h owner repoName w1 = (Inr t, w2)"
      and "files w2 (path_join h t ''.git'') = None"
      and "exec h ''git --version'' version_opts = Rejected m"
  shows "cloneRepo h repo w =
     (Inl (Error (''Failed to clone repository '' @ repo @ '': '' @ gitMissing)),
      w2\<lparr>trace := trace w2 @
         [ExistsSync (path_join h t ''.git''), Exec ''git --version'' version_opts,
          ConsoleError (''Error cloning repository '' @ repo @ '':'') gitMissing]\<rparr>)"
proof -
  have "cloneRepo_try h repo w =
      (Inl (Error gitMissing),
       w2\<lparr>trace := trace w2 @
         [ExistsSync (path_join h t ''.git''), Exec ''git --version'' version_opts]\<rparr>)"
    unfolding cloneRepo_try_git [OF assms(1-3)] update_or_clone_fresh [OF assms(4)]
      clone_attempt_probe_rejected [OF assms(5)]
    by simp
  then show ?thesis
    unfolding cloneRepo_eq by (simp add: failure_message_gitMissing)
qed

lemma files_isServerless [simp]: "files (snd (isServerless h w)) = files w"
  by (cases "exec h ''git --version'' probe_opts")
     (simp_all add: isServerless_def execAsync_def)

lemma git_dirs_files_mono:
  assumes "git_dirs h owner repoName w = (Inr t, w')" and "files w p \<noteq> None"
  shows "files w' p \<noteq> None"
proof -
  let ?b = "path_join h (tempBase h) ''bugsmith''"
  let ?t = "path_join h ?b (owner @ ''-'' @ repoName)"
  from assms(1) have "then_do (ensureDir h ?b) (\<lambda>_ w. (Inr ?t, w)) w = (Inr t, w')"
    by (simp add: git_dirs_def Let_def)
  then obtain u w1 where 1: "ensureDir h ?b w = (Inr u, w1)"
    and e: "(Inr ?t :: js_error + string, w1) = (Inr t, w')"
    by (rule then_do_InrE)
  from e have "w1 = w'" by simp
  with ensureDir_Inr(2) [OF 1 assms(2)] show ?thesis by simp
qed

lemma cloneRepo_try_pull_rejected:
  assumes "parseRepo repo = Inr (owner, repoName)" and "isServerless h w = (False, w1)"
      and "git_dirs h owner repoName w1 = (Inr t, w2)"
      and "files w2 (path_join h t ''.git'') \<noteq> None"
      and "exec h (pull_cmd t) big_opts = Rejected m"
  shows "cloneRepo_try h repo w =
     clone_attempt h repo owner repoName t
       (w2\<lparr>trace := trace w2 @
          [ExistsSync (path_join h t ''.git''), Exec (pull_cmd t) big_opts,
           ConsoleWarn (''Failed to update repository, will re-clone: '' @ m)]\<rparr>)"
  unfolding cloneRepo_try_git [OF assms(1-3)] update_or_clone_pull_rejected [OF assms(4,5)] ..

lemma is_git_clone_simps [simp]:
  "is_git_clone (Exec (clone_cmd owner repoName t) opts)"
  "\<not> is_git_clone (Exec ''git --version'' opts)"
  "\<not> is_git_clone (ExistsSync p)"
  "\<not> is_git_clone (ConsoleLog s)"
  by (simp_all add: is_git_clone_def clone_cmd_def)






text \<open>The two commands of lines 88 and 114, as the shell receives them.\<close>

lemma clone_cmd_text:
  "clone_cmd owner repoName t =
     ''git clone https://github.com/'' @ owner @ ''/'' @ repoName @ ''.git '' @ [CHR 0x22] @ t @ [CHR 0x22]"
  by (simp add: clone_cmd_def repoUrl_def quoted_def)

lemma pull_cmd_text:
  "pull_cmd t = ''git -C '' @ [CHR 0x22] @ t @ [CHR 0x22] @ '' pull''"
  by (simp add: pull_cmd_def quoted_def)


lemma clone_catch_replaces:
  "sublist ''git'' m \<Longrightarrow> sublist ''not found'' m \<or> sublist ''not in PATH'' m \<Longrightarrow>
     clone_catch (Error m) = Error gitMissing"
  by (simp add: clone_catch_def includes_str_iff_sublist)

text \<open>Line 121: with a progress marker in the diagnostic text no error marker is looked for.\<close>

lemma progress_is_no_clone_failure:
  "sublist ''Cloning into'' stderr \<or> sublist ''remote:'' stderr \<Longrightarrow> \<not> clone_failed stderr"
  by (auto simp: includes_str_iff_sublist)



lemma then_do_InlE:
  assumes "then_do m f w = (Inl e, w'')"
  obtains (first) w' where "m w = (Inl e, w')"
        | (second) x w' where "m w = (Inr x, w')" and "f x w' = (Inl e, w'')"
proof (cases "m w")
  case (Pair r w')
  show ?thesis
  proof (cases r)
    case (Inl e')
    with Pair assms have "m w = (Inl e, w')" by (simp add: then_do_def)
    then show ?thesis by (rule first)
  next
    case (Inr x)
    with Pair assms have "m w = (Inr x, w')" "f x w' = (Inl e, w'')" by (simp_all add: then_do_def)
    then show ?thesis by (rule second)
  qed
qed

lemma ensureDir_Inl:
  "ensureDir h d w = (Inl e, w') \<Longrightarrow> fs_refusal h (message e)"
  by (cases "files w d"; cases "mkdir_fault h d")
     (auto simp: ensureDir_def existsSync_def mkdirSync_def fs_refusal_def)

lemma writeFileSync_Inl:
  "writeFileSync h p body w = (Inl e, w') \<Longrightarrow> fs_refusal h (message e)"
  by (cases "write_fault h p") (auto simp: writeFileSync_def fs_refusal_def)

lemma serverless_dirs_Inl:
  assumes "serverless_dirs h owner repoName w = (Inl e, w')"
  shows "fs_refusal h (message e)"
proof -
  let ?b = "path_join h ''/tmp'' ''bugsmith''"
  let ?t = "path_join h ?b (owner @ ''-'' @ repoName)"
  from assms have "then_do (ensureDir h ?b)
      (\<lambda>_. then_do (ensureDir h ?t) (\<lambda>_ w. (Inr ?t, w))) w = (Inl e, w')"
    by (simp add: serverless_dirs_def Let_def)
  then show ?thesis
  proof (cases rule: then_do_InlE)
    case (first w1)
    then show ?thesis by (rule ensureDir_Inl)
  next
    case (second x w1)
    from second(2) show ?thesis
    proof (cases rule: then_do_InlE)
      case (first w2)
      then show ?thesis by (rule ensureDir_Inl)
    next
      case (second y w2)
      then show ?thesis by simp
    qed
  qed
qed

lemma serverless_branch_Inl:
  assumes "serverless_branch h repo owner repoName w = (Inl e, w')"
  shows "fs_refusal h (message e)"
  using assms unfolding serverless_branch_def
proof (cases rule: then_do_InlE)
  case (first w1)
  then show ?thesis by (rule serverless_dirs_Inl)
next
  case (second t w1)
  from second(2) show ?thesis
  proof (cases rule: then_do_InlE)
    case (first w2)
    then show ?thesis by (rule writeFileSync_Inl)
  next
    case (second y w2)
    then show ?thesis by simp
  qed
qed

lemma git_dirs_Inl:
  assumes "git_dirs h owner repoName w = (Inl e, w')"
  shows "fs_refusal h (message e)"
proof -
  let ?b = "path_join h (tempBase h) ''bugsmith''"
  let ?t = "path_join h ?b (owner @ ''-'' @ repoName)"
  from assms have "then_do (ensureDir h ?b) (\<lambda>_ w. (Inr ?t, w)) w = (Inl e, w')"
    by (simp add: git_dirs_def Let_def)
  then show ?thesis
  proof (cases rule: then_do_InlE)
    case (first w1)
    then show ?thesis by (rule ensureDir_Inl)
  next
    case (second x w1)
    then show ?thesis by simp
  qed
qed

lemma take_clone_cmd [simp]: "take 9 (clone_cmd owner repoName t) = ''git clone''"
  by (simp add: clone_cmd_def)

lemma clone_attempt_Inl:
  assumes "fst (clone_attempt h repo owner repoName t w) = Inl e"
  shows "message e = gitMissing \<or> clone_failure h (message e)"
proof (cases "exec h ''git --version'' version_opts")
  case (Rejected m)
  with assms show ?thesis by (auto simp: clone_attempt_probe_rejected)
next
  case probe: (Resolved out err)
  show ?thesis
  proof (cases "exec h (clone_cmd owner repoName t) big_opts")
    case (Rejected m)
    then have "clone_failure h m"
      unfolding clone_failure_def using take_clone_cmd by blast
    moreover from assms have "e = clone_catch (Error m)"
      unfolding clone_attempt_clone_rejected [OF probe Rejected] by simp
    ultimately show ?thesis
      using clone_catch_cases [of "Error m"] by auto
  next
    case (Resolved stdout stderr)
    then have "clone_failure h (''Git clone error: '' @ stderr)"
      unfolding clone_failure_def using take_clone_cmd by blast
    moreover from assms have "e = clone_catch (Error (''Git clone error: '' @ stderr))"
      unfolding clone_attempt_clone_resolved [OF probe Resolved] by (simp split: if_splits)
    ultimately show ?thesis
      using clone_catch_cases [of "Error (''Git clone error: '' @ stderr)"] by auto
  qed
qed

lemma update_or_clone_Inl:
  assumes "fst (update_or_clone h repo owner repoName t w) = Inl e"
  shows "message e = gitMissing \<or> clone_failure h (message e)"
proof (cases "files w (path_join h t ''.git'') = None")
  case True
  from assms show ?thesis
    unfolding update_or_clone_fresh [OF True] by (rule clone_attempt_Inl)
next
  case False
  show ?thesis
  proof (cases "exec h (pull_cmd t) big_opts")
    case (Resolved out err)
    from assms show ?thesis
      unfolding update_or_clone_pull_resolved [OF False Resolved] by simp
  next
    case (Rejected m)
    from assms show ?thesis
      unfolding update_or_clone_pull_rejected [OF False Rejected] by (rule clone_attempt_Inl)
  qed
qed

lemma git_branch_Inl:
  assumes "git_branch h repo owner repoName w = (Inl e, w')"
  shows "message e = gitMissing \<or> fs_refusal h (message e) \<or> clone_failure h (message e)"
  using assms unfolding git_branch_def
proof (cases rule: then_do_InlE)
  case (first w1)
  then show ?thesis using git_dirs_Inl by blast
next
  case (second t w1)
  then have "fst (update_or_clone h repo owner repoName t w1) = Inl e" by simp
  from update_or_clone_Inl [OF this] show ?thesis by blast
qed

lemma cloneRepo_try_Inl:
  assumes "fst (cloneRepo_try h repo w) = Inl e"
  shows "message e = invalid_format repo \<or> message e = gitMissing
       \<or> fs_refusal h (message e) \<or> clone_failure h (message e)"
proof (cases "parseRepo repo")
  case (Inl e')
  with assms have "e = e'" by (simp add: cloneRepo_try_def)
  with parseRepo_Inl [OF Inl] show ?thesis by simp
next
  case (Inr p)
  obtain owner repoName where p: "p = (owner, repoName)" by (cases p)
  obtain d w1 where c: "isServerless h w = (d, w1)" by (cases "isServerless h w")
  show ?thesis
  proof (cases d)
    case True
    with assms Inr p c have "fst (serverless_branch h repo owner repoName w1) = Inl e"
      by (simp add: cloneRepo_try_def)
    then have "serverless_branch h repo owner repoName w1 =
        (Inl e, snd (serverless_branch h repo owner repoName w1))"
      by (simp add: prod_eq_iff)
    from serverless_branch_Inl [OF this] show ?thesis by simp
  next
    case False
    with assms Inr p c have "fst (git_branch h repo owner repoName w1) = Inl e"
      by (simp add: cloneRepo_try_def)
    then have "git_branch h repo owner repoName w1 =
        (Inl e, snd (git_branch h repo owner repoName w1))"
      by (simp add: prod_eq_iff)
    from git_branch_Inl [OF this] show ?thesis by blast
  qed
qed

section \<open>The claims\<close>

text \<open>
  C1, as the program has it. Let the repository string be well formed and the verdict be
  serverless. From the verdict on, the call starts no subprocess (and none at all when
  an environment heuristic gave the verdict). If the call returns a directory, it is the
  cache path, and the file \<^verbatim>\<open>.bugsmith-serverless\<close> in it holds the JSON text of the
  object with \<^verbatim>\<open>repo\<close> the string owner/name, \<^verbatim>\<open>cloned\<close> false and
  \<^verbatim>\<open>serverless\<close> true. The call does return when the operating system refuses
  neither of the two directory creations nor the write; when the call fails, what is
  raised carries the message of such a refusal.
\<close>

theorem degraded_writes_marker_without_git:
  assumes "parseRepo repo = Inr (owner, repoName)" and "isServerless h w = (True, w1)"
  shows "(\<exists>evs. trace (snd (cloneRepo h repo w)) = trace w1 @ evs \<and> filter spawns evs = [])
       \<and> (env_heuristics h \<longrightarrow> trace w1 = trace w)
       \<and> (\<forall>dir. fst (cloneRepo h repo w) = Inr dir \<longrightarrow>
             dir = cache_path h True owner repoName
             \<and> files (snd (cloneRepo h repo w)) (path_join h dir ''.bugsmith-serverless'')
                 = Some (File (JSON_stringify
                     (JObject [(''repo'', JString (owner @ ''/'' @ repoName)),
                               (''cloned'', JBool False), (''serverless'', JBool True)]))))
       \<and> (mkdir_fault h (path_join h ''/tmp'' ''bugsmith'') = None
          \<and> mkdir_fault h (cache_path h True owner repoName) = None
          \<and> write_fault h (path_join h (cache_path h True owner repoName) ''.bugsmith-serverless'') = None
          \<longrightarrow> fst (cloneRepo h repo w) = Inr (cache_path h True owner repoName))
       \<and> (\<forall>e. fst (cloneRepo h repo w) = Inl e \<longrightarrow>
             (\<exists>cause. fs_refusal h cause
                \<and> e = Error (''Failed to clone repository '' @ repo @ '': ''
                              @ (if cause = [] then ''Unknown error'' else cause))))"
proof (intro conjI impI allI)
  note body = cloneRepo_try_degraded [OF assms]
  from no_spawnD [OF no_spawn_serverless_branch, of h repo owner repoName w1] obtain evs
    where evs: "trace (snd (cloneRepo_try h repo w)) = trace w1 @ evs" "filter spawns evs = []"
    unfolding body by blast
  let ?tail = "case fst (cloneRepo_try h repo w) of
          Inl error \<Rightarrow> [ConsoleError (''Error cloning repository '' @ repo @ '':'') (message error)]
        | Inr targetDir \<Rightarrow> []"
  have "filter spawns ?tail = []"
    by (simp add: spawns_def split: sum.splits)
  with evs have "trace (snd (cloneRepo h repo w)) = trace w1 @ (evs @ ?tail)"
    "filter spawns (evs @ ?tail) = []"
    by (simp_all add: cloneRepo_snd(1))
  then show "\<exists>evs. trace (snd (cloneRepo h repo w)) = trace w1 @ evs \<and> filter spawns evs = []"
    by blast
next
  assume "env_heuristics h"
  from isServerless_heuristics [OF this, of w] assms(2) show "trace w1 = trace w"
    by simp
next
  fix dir
  assume ok: "fst (cloneRepo h repo w) = Inr dir"
  show "dir = cache_path h True owner repoName"
    using cloneRepo_returns_cache_path [OF assms(1) ok] assms(2) by simp
  from ok have "fst (cloneRepo_try h repo w) = Inr dir"
    unfolding cloneRepo_fst by (simp split: sum.splits)
  then have "serverless_branch h repo owner repoName w1 = (Inr dir, snd (cloneRepo_try h repo w))"
    unfolding cloneRepo_try_degraded [OF assms] by (simp add: prod_eq_iff)
  from serverless_branch_marker [OF this]
  show "files (snd (cloneRepo h repo w)) (path_join h dir ''.bugsmith-serverless'')
       = Some (File (JSON_stringify
           (JObject [(''repo'', JString (owner @ ''/'' @ repoName)),
                     (''cloned'', JBool False), (''serverless'', JBool True)])))"
    unfolding cloneRepo_snd(2) marker_body_def parseRepo_repo [OF assms(1), symmetric] .
next
  assume "mkdir_fault h (path_join h ''/tmp'' ''bugsmith'') = None
          \<and> mkdir_fault h (cache_path h True owner repoName) = None
          \<and> write_fault h (path_join h (cache_path h True owner repoName) ''.bugsmith-serverless'') = None"
  then have "fst (serverless_branch h repo owner repoName w1) = Inr (serverless_targetDir h owner repoName)"
    by (intro serverless_branch_no_fault) (simp_all add: cache_path_def)
  then show "fst (cloneRepo h repo w) = Inr (cache_path h True owner repoName)"
    unfolding cloneRepo_fst cloneRepo_try_degraded [OF assms] by (simp add: cache_path_def)
next
  fix e
  assume "fst (cloneRepo h repo w) = Inl e"
  then obtain e' where body: "fst (cloneRepo_try h repo w) = Inl e'"
    and e: "e = Error (failure_message repo e')"
    unfolding cloneRepo_fst by (cases "fst (cloneRepo_try h repo w)") simp_all
  from body have "serverless_branch h repo owner repoName w1 = (Inl e', snd (cloneRepo_try h repo w))"
    unfolding cloneRepo_try_degraded [OF assms] by (simp add: prod_eq_iff)
  then have "fs_refusal h (message e')"
    by (rule serverless_branch_Inl)
  moreover from e have "e = Error (''Failed to clone repository '' @ repo @ '': ''
                              @ (if message e' = [] then ''Unknown error'' else message e'))"
    by (simp add: failure_message_def truthy_def)
  ultimately show "\<exists>cause. fs_refusal h cause
                \<and> e = Error (''Failed to clone repository '' @ repo @ '': ''
                              @ (if cause = [] then ''Unknown error'' else cause))"
    by blast
qed

theorem degraded_writes_marker_without_git_witness:
  "parseRepo ''octocat/Hello-World'' = Inr (''octocat'', ''Hello-World'')
   \<and> isServerless vercel_host empty_world = (True, empty_world)
   \<and> env_heuristics vercel_host
   \<and> mkdir_fault vercel_host (path_join vercel_host ''/tmp'' ''bugsmith'') = None
   \<and> mkdir_fault vercel_host (cache_path vercel_host True ''octocat'' ''Hello-World'') = None
   \<and> write_fault vercel_host
        (path_join vercel_host (cache_path vercel_host True ''octocat'' ''Hello-World'')
           ''.bugsmith-serverless'') = None
   \<and> cache_path vercel_host True ''octocat'' ''Hello-World'' = ''/tmp/bugsmith/octocat-Hello-World''
   \<and> fst (cloneRepo vercel_host ''octocat/Hello-World'' empty_world)
       = Inr ''/tmp/bugsmith/octocat-Hello-World''
   \<and> files (snd (cloneRepo vercel_host ''octocat/Hello-World'' empty_world))
        ''/tmp/bugsmith/octocat-Hello-World/.bugsmith-serverless''
       = Some (File (''{'' @ quoted ''repo'' @ '':'' @ quoted ''octocat/Hello-World'' @ '',''
                     @ quoted ''cloned'' @ '':false,'' @ quoted ''serverless'' @ '':true}''))
   \<and> (\<exists>evs. trace (snd (cloneRepo vercel_host ''octocat/Hello-World'' empty_world))
               = trace empty_world @ evs \<and> filter spawns evs = [])
   \<and> isServerless readonly_host empty_world = (True, empty_world)
   \<and> fst (cloneRepo readonly_host ''octocat/Hello-World'' empty_world)
       = Inl (Error ''Failed to clone repository octocat/Hello-World: EROFS: read-only file system, mkdir /tmp/bugsmith'')
   \<and> (\<exists>cause. fs_refusal readonly_host cause
         \<and> Error ''Failed to clone repository octocat/Hello-World: EROFS: read-only file system, mkdir /tmp/bugsmith''
             = Error (''Failed to clone repository '' @ ''octocat/Hello-World'' @ '': ''
                      @ (if cause = [] then ''Unknown error'' else cause)))"
proof -
  let ?h = vercel_host and ?repo = "''octocat/Hello-World''"
  let ?dir = "''/tmp/bugsmith/octocat-Hello-World''"
  have p: "parseRepo ?repo = Inr (''octocat'', ''Hello-World'')"
    by code_simp
  have v: "env_heuristics ?h"
    by (simp add: env_heuristics_def nonempty_var_def vercel_host_def)
  have s: "isServerless ?h empty_world = (True, empty_world)"
    by (rule isServerless_heuristics [OF v])
  have f1: "mkdir_fault ?h (path_join ?h ''/tmp'' ''bugsmith'') = None"
    and f2: "mkdir_fault ?h (cache_path ?h True ''octocat'' ''Hello-World'') = None"
    and f3: "write_fault ?h
        (path_join ?h (cache_path ?h True ''octocat'' ''Hello-World'') ''.bugsmith-serverless'') = None"
    by (simp_all add: vercel_host_def no_fault_def)
  have c: "cache_path ?h True ''octocat'' ''Hello-World'' = ?dir"
    by code_simp
  have j: "path_join ?h ?dir ''.bugsmith-serverless'' = ''/tmp/bugsmith/octocat-Hello-World/.bugsmith-serverless''"
    by code_simp
  have b: "JSON_stringify (JObject [(''repo'', JString (''octocat'' @ ''/'' @ ''Hello-World'')),
                               (''cloned'', JBool False), (''serverless'', JBool True)])
      = ''{'' @ quoted ''repo'' @ '':'' @ quoted ''octocat/Hello-World'' @ '',''
                     @ quoted ''cloned'' @ '':false,'' @ quoted ''serverless'' @ '':true}''"
    by code_simp
  note claim = degraded_writes_marker_without_git [OF p s]
  from claim f1 f2 f3 have r: "fst (cloneRepo ?h ?repo empty_world) = Inr ?dir"
    unfolding c by blast
  from claim r have "files (snd (cloneRepo ?h ?repo empty_world)) (path_join ?h ?dir ''.bugsmith-serverless'')
       = Some (File (JSON_stringify (JObject [(''repo'', JString (''octocat'' @ ''/'' @ ''Hello-World'')),
                               (''cloned'', JBool False), (''serverless'', JBool True)])))"
    by blast
  then have m: "files (snd (cloneRepo ?h ?repo empty_world))
        ''/tmp/bugsmith/octocat-Hello-World/.bugsmith-serverless''
       = Some (File (''{'' @ quoted ''repo'' @ '':'' @ quoted ''octocat/Hello-World'' @ '',''
                     @ quoted ''cloned'' @ '':false,'' @ quoted ''serverless'' @ '':true}''))"
    unfolding j b .
  from claim have t: "\<exists>evs. trace (snd (cloneRepo ?h ?repo empty_world))
               = trace empty_world @ evs \<and> filter spawns evs = []"
    by blast
  have v': "env_heuristics readonly_host"
    by (simp add: env_heuristics_def nonempty_var_def readonly_host_def vercel_host_def)
  have s': "isServerless readonly_host empty_world = (True, empty_world)"
    by (rule isServerless_heuristics [OF v'])
  have r': "fst (cloneRepo readonly_host ?repo empty_world)
       = Inl (Error ''Failed to clone repository octocat/Hello-World: EROFS: read-only file system, mkdir /tmp/bugsmith'')"
    by code_simp
  note claim' = degraded_writes_marker_without_git [OF p s']
  have x: "\<exists>cause. fs_refusal readonly_host cause
         \<and> Error ''Failed to clone repository octocat/Hello-World: EROFS: read-only file system, mkdir /tmp/bugsmith''
             = Error (''Failed to clone repository '' @ ''octocat/Hello-World'' @ '': ''
                      @ (if cause = [] then ''Unknown error'' else cause))"
    by (rule claim' [THEN conjunct2, THEN conjunct2, THEN conjunct2, THEN conjunct2, rule_format, OF r'])
  show ?thesis
    by (intro conjI p s v f1 f2 f3 c r m t s' r' x)
qed

theorem readonly_filesystem_counterexample:
  "parseRepo ''octocat/Hello-World'' = Inr (''octocat'', ''Hello-World'')
   \<and> fst (isServerless readonly_host empty_world) = True
   \<and> fst (cloneRepo readonly_host ''octocat/Hello-World'' empty_world)
       = Inl (Error ''Failed to clone repository octocat/Hello-World: EROFS: read-only file system, mkdir /tmp/bugsmith'')
   \<and> files (snd (cloneRepo readonly_host ''octocat/Hello-World'' empty_world))
        ''/tmp/bugsmith/octocat-Hello-World/.bugsmith-serverless'' = None"
  by code_simp

text \<open>
  C2, as the program has it. A variable counts for the heuristics only when its value is a
  non-empty string. If one of the four heuristics holds, the verdict is serverless and
  nothing is run. Otherwise the version query is run once, with a timeout of 2000
  milliseconds and a buffer of 1 MiB; when it succeeds the verdict is not serverless; when
  it fails the verdict is serverless, a line is logged, and the call goes on in the
  serverless branch instead of raising.
\<close>

theorem isServerless_heuristics_then_probe:
  "(env_heuristics h \<longrightarrow> isServerless h w = (True, w))
   \<and> (\<not> env_heuristics h \<longrightarrow>
        (\<forall>out err.
           exec h ''git --version'' \<lparr>maxBuffer = Some 1048576, timeout = Some 2000\<rparr> = Resolved out err \<longrightarrow>
           isServerless h w =
             (False, w\<lparr>trace := trace w @
                [Exec ''git --version'' \<lparr>maxBuffer = Some 1048576, timeout = Some 2000\<rparr>]\<rparr>))
        \<and> (\<forall>m.
           exec h ''git --version'' \<lparr>maxBuffer = Some 1048576, timeout = Some 2000\<rparr> = Rejected m \<longrightarrow>
           isServerless h w =
             (True, w\<lparr>trace := trace w @
                [Exec ''git --version'' \<lparr>maxBuffer = Some 1048576, timeout = Some 2000\<rparr>,
                 ConsoleLog ''[cloneRepo] Git not available, using serverless mode'']\<rparr>)
           \<and> (\<forall>owner repoName. parseRepo repo = Inr (owner, repoName) \<longrightarrow>
                cloneRepo_try h repo w =
                  serverless_branch h repo owner repoName
                    (w\<lparr>trace := trace w @
                      [Exec ''git --version'' \<lparr>maxBuffer = Some 1048576, timeout = Some 2000\<rparr>,
                       ConsoleLog ''[cloneRepo] Git not available, using serverless mode'']\<rparr>))))"
proof (intro conjI impI allI)
  assume "env_heuristics h"
  then show "isServerless h w = (True, w)"
    by (rule isServerless_heuristics)
next
  fix out err
  assume "\<not> env_heuristics h"
    and "exec h ''git --version'' \<lparr>maxBuffer = Some 1048576, timeout = Some 2000\<rparr> = Resolved out err"
  then show "isServerless h w =
      (False, w\<lparr>trace := trace w @
         [Exec ''git --version'' \<lparr>maxBuffer = Some 1048576, timeout = Some 2000\<rparr>]\<rparr>)"
    by (simp add: isServerless_probe)
next
  fix m
  assume "\<not> env_heuristics h"
    and "exec h ''git --version'' \<lparr>maxBuffer = Some 1048576, timeout = Some 2000\<rparr> = Rejected m"
  then show "isServerless h w =
      (True, w\<lparr>trace := trace w @
         [Exec ''git --version'' \<lparr>maxBuffer = Some 1048576, timeout = Some 2000\<rparr>,
          ConsoleLog ''[cloneRepo] Git not available, using serverless mode'']\<rparr>)"
    by (simp add: isServerless_probe)
next
  fix m owner repoName
  assume "\<not> env_heuristics h"
    and "exec h ''git --version'' \<lparr>maxBuffer = Some 1048576, timeout = Some 2000\<rparr> = Rejected m"
    and "parseRepo repo = Inr (owner, repoName)"
  then show "cloneRepo_try h repo w =
      serverless_branch h repo owner repoName
        (w\<lparr>trace := trace w @
          [Exec ''git --version'' \<lparr>maxBuffer = Some 1048576, timeout = Some 2000\<rparr>,
           ConsoleLog ''[cloneRepo] Git not available, using serverless mode'']\<rparr>)"
    using cloneRepo_try_probe_rejected [of repo owner repoName h m w] by simp
qed

theorem isServerless_heuristics_then_probe_witness:
  "env_heuristics vercel_host
   \<and> isServerless vercel_host empty_world = (True, empty_world)
   \<and> \<not> env_heuristics (dev_host no_git)
   \<and> exec (dev_host no_git) ''git --version'' \<lparr>maxBuffer = Some 1048576, timeout = Some 2000\<rparr>
       = Rejected (''Command failed: git --version'' @ [CHR 0x0A] @ ''/bin/sh: 1: git: not found'')
   \<and> isServerless (dev_host no_git) empty_world =
       (True, empty_world\<lparr>trace := trace empty_world @
          [Exec ''git --version'' \<lparr>maxBuffer = Some 1048576, timeout = Some 2000\<rparr>,
           ConsoleLog ''[cloneRepo] Git not available, using serverless mode'']\<rparr>)
   \<and> parseRepo ''octocat/Hello-World'' = Inr (''octocat'', ''Hello-World'')
   \<and> cloneRepo_try (dev_host no_git) ''octocat/Hello-World'' empty_world =
       serverless_branch (dev_host no_git) ''octocat/Hello-World'' ''octocat'' ''Hello-World''
         (empty_world\<lparr>trace := trace empty_world @
            [Exec ''git --version'' \<lparr>maxBuffer = Some 1048576, timeout = Some 2000\<rparr>,
             ConsoleLog ''[cloneRepo] Git not available, using serverless mode'']\<rparr>)
   \<and> \<not> env_heuristics (dev_host (git_says []))
   \<and> exec (dev_host (git_says [])) ''git --version'' \<lparr>maxBuffer = Some 1048576, timeout = Some 2000\<rparr>
       = Resolved [] []
   \<and> isServerless (dev_host (git_says [])) empty_world =
       (False, empty_world\<lparr>trace := trace empty_world @
          [Exec ''git --version'' \<lparr>maxBuffer = Some 1048576, timeout = Some 2000\<rparr>]\<rparr>)"
proof -
  note claim = isServerless_heuristics_then_probe
  have v: "env_heuristics vercel_host"
    by (simp add: env_heuristics_def nonempty_var_def vercel_host_def)
  have d: "\<not> env_heuristics (dev_host g)" for g
    by (simp add: env_heuristics_def nonempty_var_def dev_host_def)
  have rej: "exec (dev_host no_git) ''git --version'' \<lparr>maxBuffer = Some 1048576, timeout = Some 2000\<rparr>
       = Rejected (''Command failed: git --version'' @ [CHR 0x0A] @ ''/bin/sh: 1: git: not found'')"
    by (simp add: dev_host_def no_git_def)
  have res: "exec (dev_host (git_says [])) ''git --version''
       \<lparr>maxBuffer = Some 1048576, timeout = Some 2000\<rparr> = Resolved [] []"
    by (simp add: dev_host_def git_says_def)
  have p: "parseRepo ''octocat/Hello-World'' = Inr (''octocat'', ''Hello-World'')"
    by code_simp
  from claim [of vercel_host empty_world] v
  have c1: "isServerless vercel_host empty_world = (True, empty_world)"
    by blast
  from claim [of "dev_host no_git" empty_world "''octocat/Hello-World''"] d rej p
  have c2: "isServerless (dev_host no_git) empty_world =
       (True, empty_world\<lparr>trace := trace empty_world @
          [Exec ''git --version'' \<lparr>maxBuffer = Some 1048576, timeout = Some 2000\<rparr>,
           ConsoleLog ''[cloneRepo] Git not available, using serverless mode'']\<rparr>)"
    and c3: "cloneRepo_try (dev_host no_git) ''octocat/Hello-World'' empty_world =
       serverless_branch (dev_host no_git) ''octocat/Hello-World'' ''octocat'' ''Hello-World''
         (empty_world\<lparr>trace := trace empty_world @
            [Exec ''git --version'' \<lparr>maxBuffer = Some 1048576, timeout = Some 2000\<rparr>,
             ConsoleLog ''[cloneRepo] Git not available, using serverless mode'']\<rparr>)"
    by blast+
  from claim [of "dev_host (git_says [])" empty_world] d res
  have c4: "isServerless (dev_host (git_says [])) empty_world =
       (False, empty_world\<lparr>trace := trace empty_world @
          [Exec ''git --version'' \<lparr>maxBuffer = Some 1048576, timeout = Some 2000\<rparr>]\<rparr>)"
    by blast
  show ?thesis
    by (intro conjI v c1 d rej c2 p c3 res c4)
qed

theorem empty_function_name_counterexample:
  "env empty_lambda_host ''AWS_LAMBDA_FUNCTION_NAME'' = Some []
   \<and> fst (isServerless empty_lambda_host empty_world) = False
   \<and> trace (snd (isServerless empty_lambda_host empty_world)) =
       [Exec ''git --version'' \<lparr>maxBuffer = Some 1048576, timeout = Some 2000\<rparr>]"
  by code_simp

text \<open>
  C3. The repository string is accepted exactly when splitting it at the slash gives two
  segments, both non-empty; the owner and the name are then these two segments, that is,
  the string is owner, slash, name with no further slash. Every other string makes the
  call fail with the invalid-format error, and nothing has happened by then: no file
  system call, no subprocess, only the error written to the console.
\<close>

theorem parseRepo_two_nonempty_segments:
  "(parseRepo repo = Inr (owner, repoName) \<longleftrightarrow>
      split_str CHR ''/'' repo = [owner, repoName] \<and> owner \<noteq> [] \<and> repoName \<noteq> [])
   \<and> (split_str CHR ''/'' repo = [owner, repoName] \<longleftrightarrow>
      repo = owner @ ''/'' @ repoName \<and> CHR ''/'' \<notin> set owner \<and> CHR ''/'' \<notin> set repoName)
   \<and> ((\<nexists>a b. split_str CHR ''/'' repo = [a, b] \<and> a \<noteq> [] \<and> b \<noteq> []) \<longrightarrow>
        cloneRepo h repo w =
          (Inl (Error (''Failed to clone repository '' @ repo @ '': '' @ invalid_format repo)),
           w\<lparr>trace := trace w @
              [ConsoleError (''Error cloning repository '' @ repo @ '':'') (invalid_format repo)]\<rparr>))"
proof (intro conjI impI)
  show "parseRepo repo = Inr (owner, repoName) \<longleftrightarrow>
      split_str CHR ''/'' repo = [owner, repoName] \<and> owner \<noteq> [] \<and> repoName \<noteq> []"
    by (rule parseRepo_Inr_iff)
next
  show "split_str CHR ''/'' repo = [owner, repoName] \<longleftrightarrow>
      repo = owner @ ''/'' @ repoName \<and> CHR ''/'' \<notin> set owner \<and> CHR ''/'' \<notin> set repoName"
    using split_str_two_iff [of "CHR ''/''" repo owner repoName] by simp
next
  assume none: "\<nexists>a b. split_str CHR ''/'' repo = [a, b] \<and> a \<noteq> [] \<and> b \<noteq> []"
  have "\<not> (\<exists>owner repoName. parseRepo repo = Inr (owner, repoName))"
    using none unfolding parseRepo_Inr_iff .
  with parseRepo_cases [of repo] have "parseRepo repo = Inl (Error (invalid_format repo))"
    by blast
  then show "cloneRepo h repo w =
          (Inl (Error (''Failed to clone repository '' @ repo @ '': '' @ invalid_format repo)),
           w\<lparr>trace := trace w @
              [ConsoleError (''Error cloning repository '' @ repo @ '':'') (invalid_format repo)]\<rparr>)"
    by (rule cloneRepo_invalid)
qed

theorem parseRepo_two_nonempty_segments_witness:
  "split_str CHR ''/'' ''a/b/c'' = [''a'', ''b'', ''c'']
   \<and> cloneRepo vercel_host ''a/b/c'' empty_world =
       (Inl (Error ''Failed to clone repository a/b/c: Invalid repository format: a/b/c. Expected format: owner/repo''),
        empty_world\<lparr>trace := trace empty_world @
          [ConsoleError ''Error cloning repository a/b/c:''
             ''Invalid repository format: a/b/c. Expected format: owner/repo'']\<rparr>)
   \<and> parseRepo ''octocat/Hello-World'' = Inr (''octocat'', ''Hello-World'')"
proof -
  have three: "split_str CHR ''/'' ''a/b/c'' = [''a'', ''b'', ''c'']"
    by code_simp
  have none: "\<nexists>a b. split_str CHR ''/'' ''a/b/c'' = [a, b] \<and> a \<noteq> [] \<and> b \<noteq> []"
    unfolding three by simp
  have two: "split_str CHR ''/'' ''octocat/Hello-World'' = [''octocat'', ''Hello-World'']
      \<and> ''octocat'' \<noteq> [] \<and> ''Hello-World'' \<noteq> []"
    by code_simp
  note claim = parseRepo_two_nonempty_segments
  from claim [of "''a/b/c''" _ _ vercel_host empty_world] none
  have bad: "cloneRepo vercel_host ''a/b/c'' empty_world =
       (Inl (Error (''Failed to clone repository '' @ ''a/b/c'' @ '': '' @ invalid_format ''a/b/c'')),
        empty_world\<lparr>trace := trace empty_world @
          [ConsoleError (''Error cloning repository '' @ ''a/b/c'' @ '':'') (invalid_format ''a/b/c'')]\<rparr>)"
    by blast
  from claim [of "''octocat/Hello-World''" "''octocat''" "''Hello-World''"] two
  have good: "parseRepo ''octocat/Hello-World'' = Inr (''octocat'', ''Hello-World'')"
    by blast
  from three bad good show ?thesis by simp
qed

text \<open>
  C4. When the pre-clone probe and the clone both exit with 0, the clone is taken as failed
  exactly when its diagnostic text has a substring that, case folded, is one of the four
  error markers (folded too), and has neither progress marker as a substring (these two
  matched as they are written); the text is then the cause of the error. An empty
  diagnostic text holds no marker.
\<close>

theorem clone_stderr_classification:
  assumes "exec h ''git --version'' \<lparr>maxBuffer = Some (1024 * 1024), timeout = None\<rparr> = Resolved out err"
      and "exec h (clone_cmd owner repoName targetDir)
             \<lparr>maxBuffer = Some (10 * 1024 * 1024), timeout = None\<rparr> = Resolved stdout stderr"
  shows "(fst (clone_try h owner repoName targetDir w) = Inl (Error (''Git clone error: '' @ stderr)) \<longleftrightarrow>
            (\<exists>marker \<in> {''fatal:'', ''error:'', ''Permission denied'', ''not found''}.
               \<exists>u. sublist u stderr \<and> toLowerCase u = toLowerCase marker)
            \<and> \<not> (sublist ''Cloning into'' stderr \<or> sublist ''remote:'' stderr))
       \<and> (fst (clone_try h owner repoName targetDir w) = Inr () \<longleftrightarrow>
            \<not> ((\<exists>marker \<in> {''fatal:'', ''error:'', ''Permission denied'', ''not found''}.
               \<exists>u. sublist u stderr \<and> toLowerCase u = toLowerCase marker)
            \<and> \<not> (sublist ''Cloning into'' stderr \<or> sublist ''remote:'' stderr)))"
proof -
  define P where "P \<longleftrightarrow> (\<exists>marker \<in> {''fatal:'', ''error:'', ''Permission denied'', ''not found''}.
               \<exists>u. sublist u stderr \<and> toLowerCase u = toLowerCase marker)"
  define Q where "Q \<longleftrightarrow> sublist ''Cloning into'' stderr \<or> sublist ''remote:'' stderr"
  have markers: "list_ex (\<lambda>indicator. includes_str (toLowerCase stderr) (toLowerCase indicator)) errorIndicators
      \<longleftrightarrow> P"
    unfolding P_def list_ex_iff errorIndicators_def includes_lower_iff by simp
  have empty: "\<not> P" if "stderr = []"
    using no_marker_in_empty markers that by simp
  have r: "fst (clone_try h owner repoName targetDir w) =
     (if stderr \<noteq> [] \<and> \<not> Q \<and> P then Inl (Error (''Git clone error: '' @ stderr)) else Inr ())"
    unfolding clone_try_resolved [OF assms] markers
    unfolding includes_str_iff_sublist Q_def by simp
  have "(fst (clone_try h owner repoName targetDir w) = Inl (Error (''Git clone error: '' @ stderr))
          \<longleftrightarrow> P \<and> \<not> Q)
      \<and> (fst (clone_try h owner repoName targetDir w) = Inr () \<longleftrightarrow> \<not> (P \<and> \<not> Q))"
    unfolding r using empty by auto
  then show ?thesis
    unfolding P_def Q_def .
qed

theorem clone_stderr_classification_witness:
  "exec (dev_host (git_says ''FATAL: repository not found'')) ''git --version''
      \<lparr>maxBuffer = Some (1024 * 1024), timeout = None\<rparr> = Resolved [] []
   \<and> exec (dev_host (git_says ''FATAL: repository not found''))
        (clone_cmd ''octocat'' ''Hello-World'' ''/tmp/bugsmith/octocat-Hello-World'')
        \<lparr>maxBuffer = Some (10 * 1024 * 1024), timeout = None\<rparr>
       = Resolved [] ''FATAL: repository not found''
   \<and> fst (clone_try (dev_host (git_says ''FATAL: repository not found''))
            ''octocat'' ''Hello-World'' ''/tmp/bugsmith/octocat-Hello-World'' empty_world)
       = Inl (Error (''Git clone error: '' @ ''FATAL: repository not found''))
   \<and> (\<exists>marker \<in> {''fatal:'', ''error:'', ''Permission denied'', ''not found''}.
         \<exists>u. sublist u ''FATAL: repository not found'' \<and> toLowerCase u = toLowerCase marker)
   \<and> \<not> (sublist ''Cloning into'' ''FATAL: repository not found''
          \<or> sublist ''remote:'' ''FATAL: repository not found'')"
proof -
  let ?h = "dev_host (git_says ''FATAL: repository not found'')"
  have probe: "exec ?h ''git --version''
      \<lparr>maxBuffer = Some (1024 * 1024), timeout = None\<rparr> = Resolved [] []"
    by code_simp
  have clone: "exec ?h (clone_cmd ''octocat'' ''Hello-World'' ''/tmp/bugsmith/octocat-Hello-World'')
        \<lparr>maxBuffer = Some (10 * 1024 * 1024), timeout = None\<rparr>
       = Resolved [] ''FATAL: repository not found''"
    by code_simp
  have failed: "fst (clone_try ?h ''octocat'' ''Hello-World'' ''/tmp/bugsmith/octocat-Hello-World''
        empty_world) = Inl (Error (''Git clone error: '' @ ''FATAL: repository not found''))"
    by code_simp
  note claim = clone_stderr_classification [OF probe clone, of empty_world]
  have rhs: "(\<exists>marker \<in> {''fatal:'', ''error:'', ''Permission denied'', ''not found''}.
         \<exists>u. sublist u ''FATAL: repository not found'' \<and> toLowerCase u = toLowerCase marker)
     \<and> \<not> (sublist ''Cloning into'' ''FATAL: repository not found''
          \<or> sublist ''remote:'' ''FATAL: repository not found'')"
    by (rule iffD1 [OF conjunct1 [OF claim] failed])
  show ?thesis
    by (intro conjI probe clone failed conjunct1 [OF rhs] conjunct2 [OF rhs])
qed




text \<open>
  C6. Let the verdict be not serverless, let the target directory hold \<^verbatim>\<open>.git\<close>, and
  let \<^verbatim>\<open>git -C "t" pull\<close> fail with message \<open>m\<close>, \<open>t\<close> being the target directory. Then
  \<open>t\<close> is the cache path of the repository, and the body of the call goes on as the
  clone attempt for \<open>t\<close>, in a state that differs from the one before the pull only by
  the effects recorded: the existence test, the pull, and the warning that carries \<open>m\<close>.
  The outcome of the call is the outcome of a clone attempt in any state whatever, so
  \<open>m\<close> reaches the caller nowhere but in the log. The program removes nothing: every
  path that existed before the call exists after it. When the version query succeeds,
  the next command started is \<^verbatim>\<open>git clone https://github.com/owner/name.git "t"\<close>, the
  clone into the directory the pull was tried in; and when that clone exits with 0 and
  an empty diagnostic text or one with a progress marker, the call returns \<open>t\<close>.
\<close>

theorem pull_failure_falls_through_to_clone:
  assumes "parseRepo repo = Inr (owner, repoName)" and "isServerless h w = (False, w1)"
      and "git_dirs h owner repoName w1 = (Inr t, w2)"
      and "files w2 (path_join h t ''.git'') \<noteq> None"
      and "exec h (''git -C '' @ [CHR 0x22] @ t @ [CHR 0x22] @ '' pull'')
             \<lparr>maxBuffer = Some 10485760, timeout = None\<rparr> = Rejected m"
  shows "t = cache_path h False owner repoName
       \<and> cloneRepo_try h repo w =
           clone_attempt h repo owner repoName t
             (w2\<lparr>trace := trace w2 @
                [ExistsSync (path_join h t ''.git''),
                 Exec (''git -C '' @ [CHR 0x22] @ t @ [CHR 0x22] @ '' pull'')
                      \<lparr>maxBuffer = Some 10485760, timeout = None\<rparr>,
                 ConsoleWarn (''Failed to update repository, will re-clone: '' @ m)]\<rparr>)
       \<and> fst (cloneRepo h repo w) =
           (case fst (clone_attempt h repo owner repoName t v) of
              Inl error \<Rightarrow> Inl (Error (failure_message repo error))
            | Inr targetDir \<Rightarrow> Inr targetDir)
       \<and> files (snd (cloneRepo h repo w)) = files w2
       \<and> (\<forall>p. files w p \<noteq> None \<longrightarrow> files (snd (cloneRepo h repo w)) p \<noteq> None)
       \<and> (\<forall>out err.
            exec h ''git --version'' \<lparr>maxBuffer = Some 1048576, timeout = None\<rparr> = Resolved out err \<longrightarrow>
            (\<exists>rest. trace (snd (cloneRepo h repo w)) =
               trace w2 @
                [ExistsSync (path_join h t ''.git''),
                 Exec (''git -C '' @ [CHR 0x22] @ t @ [CHR 0x22] @ '' pull'')
                      \<lparr>maxBuffer = Some 10485760, timeout = None\<rparr>,
                 ConsoleWarn (''Failed to update repository, will re-clone: '' @ m),
                 Exec ''git --version'' \<lparr>maxBuffer = Some 1048576, timeout = None\<rparr>,
                 Exec (''git clone https://github.com/'' @ owner @ ''/'' @ repoName @ ''.git ''
                         @ [CHR 0x22] @ t @ [CHR 0x22])
                      \<lparr>maxBuffer = Some 10485760, timeout = None\<rparr>]
                @ rest))
       \<and> (\<forall>out err stdout stderr.
            exec h ''git --version'' \<lparr>maxBuffer = Some 1048576, timeout = None\<rparr> = Resolved out err \<longrightarrow>
            exec h (''git clone https://github.com/'' @ owner @ ''/'' @ repoName @ ''.git ''
                      @ [CHR 0x22] @ t @ [CHR 0x22])
                   \<lparr>maxBuffer = Some 10485760, timeout = None\<rparr>
              = Resolved stdout stderr \<longrightarrow>
            stderr = [] \<or> sublist ''Cloning into'' stderr \<or> sublist ''remote:'' stderr \<longrightarrow>
            fst (cloneRepo h repo w) = Inr t)"
proof (intro conjI allI impI)
  let ?pull = "''git -C '' @ [CHR 0x22] @ t @ [CHR 0x22] @ '' pull''"
  let ?clone = "''git clone https://github.com/'' @ owner @ ''/'' @ repoName @ ''.git ''
                  @ [CHR 0x22] @ t @ [CHR 0x22]"
  let ?v = "w2\<lparr>trace := trace w2 @
                [ExistsSync (path_join h t ''.git''),
                 Exec ?pull \<lparr>maxBuffer = Some 10485760, timeout = None\<rparr>,
                 ConsoleWarn (''Failed to update repository, will re-clone: '' @ m)]\<rparr>"
  from assms(5) have pull: "exec h (pull_cmd t) big_opts = Rejected m"
    unfolding pull_cmd_text by simp
  have body: "cloneRepo_try h repo w = clone_attempt h repo owner repoName t ?v"
    using cloneRepo_try_pull_rejected [OF assms(1-4) pull] unfolding pull_cmd_text by simp
  show "t = cache_path h False owner repoName"
    using git_dirs_Inr(1) [OF assms(3)] by (simp add: cache_path_def)
  show "cloneRepo_try h repo w = clone_attempt h repo owner repoName t ?v"
    by (rule body)
  show "fst (cloneRepo h repo w) =
           (case fst (clone_attempt h repo owner repoName t v) of
              Inl error \<Rightarrow> Inl (Error (failure_message repo error))
            | Inr targetDir \<Rightarrow> Inr targetDir)"
    unfolding cloneRepo_fst body
    using clone_attempt_fst_any_world [of h repo owner repoName t ?v v] by simp
  show files: "files (snd (cloneRepo h repo w)) = files w2"
    unfolding cloneRepo_snd(2) body by simp
  {
    fix p
    assume "files w p \<noteq> None"
    moreover have "files w1 = files w"
      using files_isServerless [of h w] assms(2) by simp
    ultimately have "files w2 p \<noteq> None"
      using git_dirs_files_mono [OF assms(3)] by simp
    then show "files (snd (cloneRepo h repo w)) p \<noteq> None"
      unfolding files .
  }
  {
    fix out err
    assume "exec h ''git --version'' \<lparr>maxBuffer = Some 1048576, timeout = None\<rparr> = Resolved out err"
    then have probe: "exec h ''git --version'' version_opts = Resolved out err" by simp
    have "\<exists>rest. trace (snd (clone_attempt h repo owner repoName t ?v)) =
        trace ?v @ [Exec ''git --version'' version_opts, Exec (clone_cmd owner repoName t) big_opts] @ rest"
    proof (cases "exec h (clone_cmd owner repoName t) big_opts")
      case (Rejected m')
      show ?thesis
        unfolding clone_attempt_clone_rejected [OF probe Rejected] by simp
    next
      case (Resolved stdout stderr)
      show ?thesis
        unfolding clone_attempt_clone_resolved [OF probe Resolved] by simp
    qed
    then obtain rest where r: "trace (snd (cloneRepo_try h repo w)) =
        trace ?v @ [Exec ''git --version'' version_opts, Exec (clone_cmd owner repoName t) big_opts] @ rest"
      unfolding body by blast
    have "trace (snd (cloneRepo h repo w)) =
        trace ?v @ [Exec ''git --version'' version_opts, Exec (clone_cmd owner repoName t) big_opts]
          @ (rest @ (case fst (cloneRepo_try h repo w) of
                       Inl error \<Rightarrow> [ConsoleError (''Error cloning repository '' @ repo @ '':'') (message error)]
                     | Inr targetDir \<Rightarrow> []))"
      unfolding cloneRepo_snd(1) r by simp
    then show "\<exists>rest. trace (snd (cloneRepo h repo w)) =
               trace w2 @
                [ExistsSync (path_join h t ''.git''),
                 Exec ?pull \<lparr>maxBuffer = Some 10485760, timeout = None\<rparr>,
                 ConsoleWarn (''Failed to update repository, will re-clone: '' @ m),
                 Exec ''git --version'' \<lparr>maxBuffer = Some 1048576, timeout = None\<rparr>,
                 Exec ?clone \<lparr>maxBuffer = Some 10485760, timeout = None\<rparr>]
                @ rest"
      unfolding clone_cmd_text by simp
  }
  {
    fix out err stdout stderr
    assume "exec h ''git --version'' \<lparr>maxBuffer = Some 1048576, timeout = None\<rparr> = Resolved out err"
      and "exec h ?clone \<lparr>maxBuffer = Some 10485760, timeout = None\<rparr> = Resolved stdout stderr"
    then have probe: "exec h ''git --version'' version_opts = Resolved out err"
      and clone: "exec h (clone_cmd owner repoName t) big_opts = Resolved stdout stderr"
      unfolding clone_cmd_text by simp_all
    assume "stderr = [] \<or> sublist ''Cloning into'' stderr \<or> sublist ''remote:'' stderr"
    then have "\<not> clone_failed stderr"
      using progress_is_no_clone_failure [of stderr] by (auto simp: truthy_def)
    then show "fst (cloneRepo h repo w) = Inr t"
      unfolding cloneRepo_fst body clone_attempt_clone_resolved [OF probe clone] by simp
  }
qed

theorem pull_failure_falls_through_to_clone_witness:
  "parseRepo ''octocat/Hello-World'' = Inr (''octocat'', ''Hello-World'')
   \<and> isServerless (dev_host git_pull_fails) checkout_world =
       (False, checkout_world\<lparr>trace := trace checkout_world @
          [Exec ''git --version'' \<lparr>maxBuffer = Some (1024 * 1024), timeout = Some 2000\<rparr>]\<rparr>)
   \<and> git_dirs (dev_host git_pull_fails) ''octocat'' ''Hello-World''
        (checkout_world\<lparr>trace := trace checkout_world @
          [Exec ''git --version'' \<lparr>maxBuffer = Some (1024 * 1024), timeout = Some 2000\<rparr>]\<rparr>) =
       (Inr ''/tmp/bugsmith/octocat-Hello-World'',
        snd (git_dirs (dev_host git_pull_fails) ''octocat'' ''Hello-World''
          (checkout_world\<lparr>trace := trace checkout_world @
            [Exec ''git --version'' \<lparr>maxBuffer = Some (1024 * 1024), timeout = Some 2000\<rparr>]\<rparr>)))
   \<and> files (snd (git_dirs (dev_host git_pull_fails) ''octocat'' ''Hello-World''
          (checkout_world\<lparr>trace := trace checkout_world @
            [Exec ''git --version'' \<lparr>maxBuffer = Some (1024 * 1024), timeout = Some 2000\<rparr>]\<rparr>)))
        (path_join (dev_host git_pull_fails) ''/tmp/bugsmith/octocat-Hello-World'' ''.git'') \<noteq> None
   \<and> exec (dev_host git_pull_fails)
        (''git -C '' @ [CHR 0x22] @ ''/tmp/bugsmith/octocat-Hello-World'' @ [CHR 0x22] @ '' pull'')
        \<lparr>maxBuffer = Some 10485760, timeout = None\<rparr> =
       Rejected (''Command failed: git -C '' @ [CHR 0x22] @ ''/tmp/bugsmith/octocat-Hello-World''
                 @ [CHR 0x22] @ '' pull'' @ [CHR 0x0A] @ ''fatal: unable to access the remote'')
   \<and> ''/tmp/bugsmith/octocat-Hello-World'' = cache_path (dev_host git_pull_fails) False ''octocat'' ''Hello-World''
   \<and> exec (dev_host git_pull_fails) ''git --version'' \<lparr>maxBuffer = Some 1048576, timeout = None\<rparr>
       = Resolved [] []
   \<and> exec (dev_host git_pull_fails)
        (''git clone https://github.com/octocat/Hello-World.git ''
           @ [CHR 0x22] @ ''/tmp/bugsmith/octocat-Hello-World'' @ [CHR 0x22])
        \<lparr>maxBuffer = Some 10485760, timeout = None\<rparr>
       = Resolved [] []
   \<and> fst (cloneRepo (dev_host git_pull_fails) ''octocat/Hello-World'' checkout_world) =
       Inr ''/tmp/bugsmith/octocat-Hello-World''
   \<and> (\<exists>rest. trace (snd (cloneRepo (dev_host git_pull_fails) ''octocat/Hello-World'' checkout_world)) =
         trace (snd (git_dirs (dev_host git_pull_fails) ''octocat'' ''Hello-World''
          (checkout_world\<lparr>trace := trace checkout_world @
            [Exec ''git --version'' \<lparr>maxBuffer = Some (1024 * 1024), timeout = Some 2000\<rparr>]\<rparr>))) @
           [ExistsSync (path_join (dev_host git_pull_fails) ''/tmp/bugsmith/octocat-Hello-World'' ''.git''),
            Exec (''git -C '' @ [CHR 0x22] @ ''/tmp/bugsmith/octocat-Hello-World'' @ [CHR 0x22] @ '' pull'')
                 \<lparr>maxBuffer = Some 10485760, timeout = None\<rparr>,
            ConsoleWarn (''Failed to update repository, will re-clone: ''
                 @ ''Command failed: git -C '' @ [CHR 0x22] @ ''/tmp/bugsmith/octocat-Hello-World''
                 @ [CHR 0x22] @ '' pull'' @ [CHR 0x0A] @ ''fatal: unable to access the remote''),
            Exec ''git --version'' \<lparr>maxBuffer = Some 1048576, timeout = None\<rparr>,
            Exec (''git clone https://github.com/octocat/Hello-World.git ''
                    @ [CHR 0x22] @ ''/tmp/bugsmith/octocat-Hello-World'' @ [CHR 0x22])
                 \<lparr>maxBuffer = Some 10485760, timeout = None\<rparr>]
           @ rest)
   \<and> files (snd (cloneRepo (dev_host git_pull_fails) ''octocat/Hello-World'' checkout_world))
        ''/tmp/bugsmith/octocat-Hello-World/.git'' \<noteq> None"
proof -
  let ?h = "dev_host git_pull_fails" and ?repo = "''octocat/Hello-World''"
  let ?t = "''/tmp/bugsmith/octocat-Hello-World''"
  let ?big = "\<lparr>maxBuffer = Some 10485760, timeout = None\<rparr>"
  let ?pull = "''git -C '' @ [CHR 0x22] @ ?t @ [CHR 0x22] @ '' pull''"
  let ?cmd = "''git clone https://github.com/'' @ ''octocat'' @ ''/'' @ ''Hello-World'' @ ''.git ''
                @ [CHR 0x22] @ ?t @ [CHR 0x22]"
  let ?lit = "''git clone https://github.com/octocat/Hello-World.git '' @ [CHR 0x22] @ ?t @ [CHR 0x22]"
  let ?m = "''Command failed: git -C '' @ [CHR 0x22] @ ?t @ [CHR 0x22] @ '' pull'' @ [CHR 0x0A]
              @ ''fatal: unable to access the remote''"
  let ?w1 = "checkout_world\<lparr>trace := trace checkout_world @
          [Exec ''git --version'' \<lparr>maxBuffer = Some (1024 * 1024), timeout = Some 2000\<rparr>]\<rparr>"
  let ?w2 = "snd (git_dirs ?h ''octocat'' ''Hello-World'' ?w1)"
  have cmd: "?cmd = ?lit"
    by simp
  have p: "parseRepo ?repo = Inr (''octocat'', ''Hello-World'')"
    by code_simp
  have d: "\<not> env_heuristics ?h"
    by (simp add: env_heuristics_def nonempty_var_def dev_host_def)
  have "exec ?h ''git --version'' \<lparr>maxBuffer = Some (1024 * 1024), timeout = Some 2000\<rparr> = Resolved [] []"
    by (simp add: dev_host_def git_pull_fails_def)
  then have s: "isServerless ?h checkout_world = (False, ?w1)"
    by (simp add: isServerless_probe [OF d])
  have "fst (git_dirs ?h ''octocat'' ''Hello-World'' ?w1) = Inr ?t"
    by code_simp
  then have g: "git_dirs ?h ''octocat'' ''Hello-World'' ?w1 = (Inr ?t, ?w2)"
    by (simp add: prod_eq_iff)
  have f: "files ?w2 (path_join ?h ?t ''.git'') \<noteq> None"
    by code_simp
  have pull: "exec ?h ?pull ?big = Rejected ?m"
    by code_simp
  note claim = pull_failure_falls_through_to_clone [OF p s g f pull, where v = empty_world]
  have c: "?t = cache_path ?h False ''octocat'' ''Hello-World''"
    by (rule claim [THEN conjunct1])
  have probe: "exec ?h ''git --version'' \<lparr>maxBuffer = Some 1048576, timeout = None\<rparr> = Resolved [] []"
    by (simp add: dev_host_def git_pull_fails_def)
  have clone: "exec ?h ?lit ?big = Resolved [] []"
    by code_simp
  have "([]::string) = [] \<or> sublist ''Cloning into'' [] \<or> sublist ''remote:'' []"
    by simp
  then have r: "fst (cloneRepo ?h ?repo checkout_world) = Inr ?t"
    by (rule claim [THEN conjunct2, THEN conjunct2, THEN conjunct2, THEN conjunct2, THEN conjunct2,
                    THEN conjunct2, rule_format, OF probe clone [folded cmd]])
  have "\<exists>rest. trace (snd (cloneRepo ?h ?repo checkout_world)) =
         trace ?w2 @
           [ExistsSync (path_join ?h ?t ''.git''), Exec ?pull ?big,
            ConsoleWarn (''Failed to update repository, will re-clone: '' @ ?m),
            Exec ''git --version'' \<lparr>maxBuffer = Some 1048576, timeout = None\<rparr>,
            Exec ?cmd ?big]
           @ rest"
    by (rule claim [THEN conjunct2, THEN conjunct2, THEN conjunct2, THEN conjunct2, THEN conjunct2,
                    THEN conjunct1, rule_format, OF probe])
  then have tr: "\<exists>rest. trace (snd (cloneRepo ?h ?repo checkout_world)) =
         trace ?w2 @
           [ExistsSync (path_join ?h ?t ''.git''), Exec ?pull ?big,
            ConsoleWarn (''Failed to update repository, will re-clone: '' @ ?m),
            Exec ''git --version'' \<lparr>maxBuffer = Some 1048576, timeout = None\<rparr>,
            Exec ?lit ?big]
           @ rest"
    unfolding cmd .
  have "files checkout_world ''/tmp/bugsmith/octocat-Hello-World/.git'' \<noteq> None"
    by code_simp
  then have k: "files (snd (cloneRepo ?h ?repo checkout_world))
        ''/tmp/bugsmith/octocat-Hello-World/.git'' \<noteq> None"
    by (rule claim [THEN conjunct2, THEN conjunct2, THEN conjunct2, THEN conjunct2, THEN conjunct1,
                    rule_format])
  show ?thesis
    by (intro conjI p s g f pull c probe clone r tr k)
qed

text \<open>
  C7. The directory is decided by the owner, the name, the degraded flag and the host's
  environment alone, never by the state of the file system: whenever the resolution
  succeeds, and whenever the whole call succeeds, the path is \<open>cache_path\<close> of these.
  Resolving again in the state the first resolution left finds the directories in place:
  it only asks whether they exist, creates nothing, leaves the files as they are, and
  returns the same path without raising.
\<close>

theorem cache_path_deterministic_idempotent:
  "(resolve h degraded owner repoName w = (Inr p, w') \<longrightarrow>
      p = cache_path h degraded owner repoName
      \<and> resolve h degraded owner repoName w' =
          (Inr p, w'\<lparr>trace := trace w' @
             (if degraded
              then [ExistsSync (path_join h ''/tmp'' ''bugsmith''), ExistsSync p]
              else [ExistsSync (path_join h (tempBase h) ''bugsmith'')])\<rparr>))
   \<and> (parseRepo repo = Inr (owner, repoName) \<longrightarrow> fst (cloneRepo h repo v) = Inr q \<longrightarrow>
        q = cache_path h (fst (isServerless h v)) owner repoName)"
proof (intro conjI impI)
  assume r: "resolve h degraded owner repoName w = (Inr p, w')"
  show "p = cache_path h degraded owner repoName"
    by (rule resolve_Inr(1) [OF r])
  show "resolve h degraded owner repoName w' =
          (Inr p, w'\<lparr>trace := trace w' @
             (if degraded
              then [ExistsSync (path_join h ''/tmp'' ''bugsmith''), ExistsSync p]
              else [ExistsSync (path_join h (tempBase h) ''bugsmith'')])\<rparr>)"
    by (rule resolve_Inr(2) [OF r])
next
  assume "parseRepo repo = Inr (owner, repoName)" and "fst (cloneRepo h repo v) = Inr q"
  then show "q = cache_path h (fst (isServerless h v)) owner repoName"
    by (rule cloneRepo_returns_cache_path)
qed

theorem cache_path_deterministic_idempotent_witness:
  "resolve vercel_host True ''octocat'' ''Hello-World'' empty_world =
     (Inr ''/tmp/bugsmith/octocat-Hello-World'',
      snd (resolve vercel_host True ''octocat'' ''Hello-World'' empty_world))
   \<and> ''/tmp/bugsmith/octocat-Hello-World'' = cache_path vercel_host True ''octocat'' ''Hello-World''
   \<and> resolve vercel_host True ''octocat'' ''Hello-World''
        (snd (resolve vercel_host True ''octocat'' ''Hello-World'' empty_world)) =
       (Inr ''/tmp/bugsmith/octocat-Hello-World'',
        (snd (resolve vercel_host True ''octocat'' ''Hello-World'' empty_world))
          \<lparr>trace := trace (snd (resolve vercel_host True ''octocat'' ''Hello-World'' empty_world)) @
             (if True
              then [ExistsSync (path_join vercel_host ''/tmp'' ''bugsmith''),
                    ExistsSync ''/tmp/bugsmith/octocat-Hello-World'']
              else [ExistsSync (path_join vercel_host (tempBase vercel_host) ''bugsmith'')])\<rparr>)
   \<and> parseRepo ''octocat/Hello-World'' = Inr (''octocat'', ''Hello-World'')
   \<and> fst (cloneRepo (dev_host (git_says [])) ''octocat/Hello-World'' empty_world) =
       Inr ''/tmp/bugsmith/octocat-Hello-World''
   \<and> ''/tmp/bugsmith/octocat-Hello-World'' =
       cache_path (dev_host (git_says []))
         (fst (isServerless (dev_host (git_says [])) empty_world)) ''octocat'' ''Hello-World''"
proof -
  note claim = cache_path_deterministic_idempotent
  have "fst (resolve vercel_host True ''octocat'' ''Hello-World'' empty_world) =
      Inr ''/tmp/bugsmith/octocat-Hello-World''"
    by code_simp
  then have first: "resolve vercel_host True ''octocat'' ''Hello-World'' empty_world =
     (Inr ''/tmp/bugsmith/octocat-Hello-World'',
      snd (resolve vercel_host True ''octocat'' ''Hello-World'' empty_world))"
    by (simp add: prod_eq_iff)
  have p: "parseRepo ''octocat/Hello-World'' = Inr (''octocat'', ''Hello-World'')"
    by code_simp
  have c: "fst (cloneRepo (dev_host (git_says [])) ''octocat/Hello-World'' empty_world) =
       Inr ''/tmp/bugsmith/octocat-Hello-World''"
    by code_simp
  from claim [where h = vercel_host and degraded = True and owner = "''octocat''"
      and repoName = "''Hello-World''" and w = empty_world
      and p = "''/tmp/bugsmith/octocat-Hello-World''"
      and w' = "snd (resolve vercel_host True ''octocat'' ''Hello-World'' empty_world)"] first
  have path: "''/tmp/bugsmith/octocat-Hello-World'' = cache_path vercel_host True ''octocat'' ''Hello-World''"
    and again: "resolve vercel_host True ''octocat'' ''Hello-World''
        (snd (resolve vercel_host True ''octocat'' ''Hello-World'' empty_world)) =
       (Inr ''/tmp/bugsmith/octocat-Hello-World'',
        (snd (resolve vercel_host True ''octocat'' ''Hello-World'' empty_world))
          \<lparr>trace := trace (snd (resolve vercel_host True ''octocat'' ''Hello-World'' empty_world)) @
             (if True
              then [ExistsSync (path_join vercel_host ''/tmp'' ''bugsmith''),
                    ExistsSync ''/tmp/bugsmith/octocat-Hello-World'']
              else [ExistsSync (path_join vercel_host (tempBase vercel_host) ''bugsmith'')])\<rparr>)"
    by blast+
  from claim [where repo = "''octocat/Hello-World''" and owner = "''octocat''"
      and repoName = "''Hello-World''" and h = "dev_host (git_says [])" and v = empty_world
      and q = "''/tmp/bugsmith/octocat-Hello-World''"] p c
  have whole: "''/tmp/bugsmith/octocat-Hello-World'' =
       cache_path (dev_host (git_says []))
         (fst (isServerless (dev_host (git_says [])) empty_world)) ''octocat'' ''Hello-World''"
    by blast
  show ?thesis
    by (intro conjI first path again p c whole)
qed

text \<open>
  C8. Every clone attempt starts with the version query. If the query fails, no clone is
  started and the attempt fails with the fixed git-is-missing error; for a fresh clone
  (no earlier checkout) the caller then gets the message that names the repository and
  ends with that error's text. If the query succeeds, the next thing started is the clone
  into the target directory.
\<close>

theorem probe_before_clone_tool_unavailable:
  "(\<forall>m. exec h ''git --version'' \<lparr>maxBuffer = Some 1048576, timeout = None\<rparr> = Rejected m \<longrightarrow>
       clone_attempt h repo owner repoName t v =
         (Inl (Error gitMissing),
          v\<lparr>trace := trace v @ [Exec ''git --version'' \<lparr>maxBuffer = Some 1048576, timeout = None\<rparr>]\<rparr>)
       \<and> (parseRepo repo = Inr (owner, repoName) \<longrightarrow> isServerless h w = (False, w1) \<longrightarrow>
          git_dirs h owner repoName w1 = (Inr t, w2) \<longrightarrow> files w2 (path_join h t ''.git'') = None \<longrightarrow>
            cloneRepo h repo w =
              (Inl (Error (''Failed to clone repository '' @ repo @ '': '' @ gitMissing)),
               w2\<lparr>trace := trace w2 @
                  [ExistsSync (path_join h t ''.git''),
                   Exec ''git --version'' \<lparr>maxBuffer = Some 1048576, timeout = None\<rparr>,
                   ConsoleError (''Error cloning repository '' @ repo @ '':'') gitMissing]\<rparr>)))
   \<and> (\<forall>out err. exec h ''git --version'' \<lparr>maxBuffer = Some 1048576, timeout = None\<rparr> = Resolved out err \<longrightarrow>
        (\<exists>rest. trace (snd (clone_attempt h repo owner repoName t v)) =
            trace v @ [Exec ''git --version'' \<lparr>maxBuffer = Some 1048576, timeout = None\<rparr>,
                       Exec (clone_cmd owner repoName t) \<lparr>maxBuffer = Some 10485760, timeout = None\<rparr>]
              @ rest))"
proof (intro conjI allI impI)
  fix m
  assume r: "exec h ''git --version'' \<lparr>maxBuffer = Some 1048576, timeout = None\<rparr> = Rejected m"
  then have r': "exec h ''git --version'' version_opts = Rejected m" by simp
  show "clone_attempt h repo owner repoName t v =
         (Inl (Error gitMissing),
          v\<lparr>trace := trace v @ [Exec ''git --version'' \<lparr>maxBuffer = Some 1048576, timeout = None\<rparr>]\<rparr>)"
    using clone_attempt_probe_rejected [OF r'] by simp
  assume "parseRepo repo = Inr (owner, repoName)" and "isServerless h w = (False, w1)"
    and "git_dirs h owner repoName w1 = (Inr t, w2)" and "files w2 (path_join h t ''.git'') = None"
  from cloneRepo_fresh_probe_rejected [OF this r']
  show "cloneRepo h repo w =
              (Inl (Error (''Failed to clone repository '' @ repo @ '': '' @ gitMissing)),
               w2\<lparr>trace := trace w2 @
                  [ExistsSync (path_join h t ''.git''),
                   Exec ''git --version'' \<lparr>maxBuffer = Some 1048576, timeout = None\<rparr>,
                   ConsoleError (''Error cloning repository '' @ repo @ '':'') gitMissing]\<rparr>)"
    by simp
next
  fix out err
  assume "exec h ''git --version'' \<lparr>maxBuffer = Some 1048576, timeout = None\<rparr> = Resolved out err"
  then have probe: "exec h ''git --version'' version_opts = Resolved out err" by simp
  show "\<exists>rest. trace (snd (clone_attempt h repo owner repoName t v)) =
            trace v @ [Exec ''git --version'' \<lparr>maxBuffer = Some 1048576, timeout = None\<rparr>,
                       Exec (clone_cmd owner repoName t) \<lparr>maxBuffer = Some 10485760, timeout = None\<rparr>]
              @ rest"
  proof (cases "exec h (clone_cmd owner repoName t) big_opts")
    case (Rejected m)
    show ?thesis
      unfolding clone_attempt_clone_rejected [OF probe Rejected] by simp
  next
    case (Resolved stdout stderr)
    show ?thesis
      unfolding clone_attempt_clone_resolved [OF probe Resolved] by simp
  qed
qed

theorem probe_before_clone_tool_unavailable_witness:
  "exec (dev_host git_vanished) ''git --version'' \<lparr>maxBuffer = Some 1048576, timeout = None\<rparr>
     = Rejected (''Command failed: git --version'' @ [CHR 0x0A] @ ''/bin/sh: 1: git: not found'')
   \<and> parseRepo ''octocat/Hello-World'' = Inr (''octocat'', ''Hello-World'')
   \<and> isServerless (dev_host git_vanished) empty_world =
       (False, empty_world\<lparr>trace := trace empty_world @
          [Exec ''git --version'' \<lparr>maxBuffer = Some (1024 * 1024), timeout = Some 2000\<rparr>]\<rparr>)
   \<and> git_dirs (dev_host git_vanished) ''octocat'' ''Hello-World''
        (empty_world\<lparr>trace := trace empty_world @
          [Exec ''git --version'' \<lparr>maxBuffer = Some (1024 * 1024), timeout = Some 2000\<rparr>]\<rparr>) =
       (Inr ''/tmp/bugsmith/octocat-Hello-World'',
        snd (git_dirs (dev_host git_vanished) ''octocat'' ''Hello-World''
          (empty_world\<lparr>trace := trace empty_world @
            [Exec ''git --version'' \<lparr>maxBuffer = Some (1024 * 1024), timeout = Some 2000\<rparr>]\<rparr>)))
   \<and> files (snd (git_dirs (dev_host git_vanished) ''octocat'' ''Hello-World''
          (empty_world\<lparr>trace := trace empty_world @
            [Exec ''git --version'' \<lparr>maxBuffer = Some (1024 * 1024), timeout = Some 2000\<rparr>]\<rparr>)))
        (path_join (dev_host git_vanished) ''/tmp/bugsmith/octocat-Hello-World'' ''.git'') = None
   \<and> fst (cloneRepo (dev_host git_vanished) ''octocat/Hello-World'' empty_world) =
       Inl (Error (''Failed to clone repository '' @ ''octocat/Hello-World'' @ '': '' @ gitMissing))
   \<and> filter spawns (trace (snd (cloneRepo (dev_host git_vanished) ''octocat/Hello-World'' empty_world))) =
       [Exec ''git --version'' \<lparr>maxBuffer = Some 1048576, timeout = Some 2000\<rparr>,
        Exec ''git --version'' \<lparr>maxBuffer = Some 1048576, timeout = None\<rparr>]
   \<and> exec (dev_host (git_says [])) ''git --version'' \<lparr>maxBuffer = Some 1048576, timeout = None\<rparr>
       = Resolved [] []
   \<and> (\<exists>rest. trace (snd (clone_attempt (dev_host (git_says [])) ''octocat/Hello-World''
                  ''octocat'' ''Hello-World'' ''/tmp/bugsmith/octocat-Hello-World'' empty_world)) =
         trace empty_world @
           [Exec ''git --version'' \<lparr>maxBuffer = Some 1048576, timeout = None\<rparr>,
            Exec (clone_cmd ''octocat'' ''Hello-World'' ''/tmp/bugsmith/octocat-Hello-World'')
              \<lparr>maxBuffer = Some 10485760, timeout = None\<rparr>] @ rest)"
proof -
  let ?h = "dev_host git_vanished" and ?repo = "''octocat/Hello-World''"
  let ?t = "''/tmp/bugsmith/octocat-Hello-World''"
  let ?w1 = "empty_world\<lparr>trace := trace empty_world @
          [Exec ''git --version'' \<lparr>maxBuffer = Some (1024 * 1024), timeout = Some 2000\<rparr>]\<rparr>"
  let ?w2 = "snd (git_dirs ?h ''octocat'' ''Hello-World'' ?w1)"
  note claim = probe_before_clone_tool_unavailable
  have rej: "exec ?h ''git --version'' \<lparr>maxBuffer = Some 1048576, timeout = None\<rparr>
     = Rejected (''Command failed: git --version'' @ [CHR 0x0A] @ ''/bin/sh: 1: git: not found'')"
    by (simp add: dev_host_def git_vanished_def)
  have p: "parseRepo ?repo = Inr (''octocat'', ''Hello-World'')"
    by code_simp
  have d: "\<not> env_heuristics ?h"
    by (simp add: env_heuristics_def nonempty_var_def dev_host_def)
  have "exec ?h ''git --version'' \<lparr>maxBuffer = Some (1024 * 1024), timeout = Some 2000\<rparr> = Resolved [] []"
    by (simp add: dev_host_def git_vanished_def)
  then have s: "isServerless ?h empty_world = (False, ?w1)"
    by (simp add: isServerless_probe [OF d])
  have "fst (git_dirs ?h ''octocat'' ''Hello-World'' ?w1) = Inr ?t"
    by code_simp
  then have g: "git_dirs ?h ''octocat'' ''Hello-World'' ?w1 = (Inr ?t, ?w2)"
    by (simp add: prod_eq_iff)
  have f: "files ?w2 (path_join ?h ?t ''.git'') = None"
    by code_simp
  from claim [where h = ?h and repo = ?repo and owner = "''octocat''" and repoName = "''Hello-World''"
      and t = ?t and w = empty_world and ?w1.0 = ?w1 and ?w2.0 = ?w2] rej p s g f
  have c: "cloneRepo ?h ?repo empty_world =
      (Inl (Error (''Failed to clone repository '' @ ?repo @ '': '' @ gitMissing)),
       ?w2\<lparr>trace := trace ?w2 @
          [ExistsSync (path_join ?h ?t ''.git''),
           Exec ''git --version'' \<lparr>maxBuffer = Some 1048576, timeout = None\<rparr>,
           ConsoleError (''Error cloning repository '' @ ?repo @ '':'') gitMissing]\<rparr>)"
    by blast
  have c1: "fst (cloneRepo ?h ?repo empty_world) =
       Inl (Error (''Failed to clone repository '' @ ?repo @ '': '' @ gitMissing))"
    unfolding c by simp
  have "filter spawns (trace ?w2) = [Exec ''git --version'' \<lparr>maxBuffer = Some 1048576, timeout = Some 2000\<rparr>]"
    by code_simp
  then have c2: "filter spawns (trace (snd (cloneRepo ?h ?repo empty_world))) =
       [Exec ''git --version'' \<lparr>maxBuffer = Some 1048576, timeout = Some 2000\<rparr>,
        Exec ''git --version'' \<lparr>maxBuffer = Some 1048576, timeout = None\<rparr>]"
    unfolding c by (simp add: spawns_def)
  have res: "exec (dev_host (git_says [])) ''git --version'' \<lparr>maxBuffer = Some 1048576, timeout = None\<rparr>
       = Resolved [] []"
    by (simp add: dev_host_def git_says_def)
  from claim [where h = "dev_host (git_says [])" and repo = ?repo and owner = "''octocat''"
      and repoName = "''Hello-World''" and t = ?t and v = empty_world] res
  have c3: "\<exists>rest. trace (snd (clone_attempt (dev_host (git_says [])) ?repo
                  ''octocat'' ''Hello-World'' ?t empty_world)) =
         trace empty_world @
           [Exec ''git --version'' \<lparr>maxBuffer = Some 1048576, timeout = None\<rparr>,
            Exec (clone_cmd ''octocat'' ''Hello-World'' ?t)
              \<lparr>maxBuffer = Some 10485760, timeout = None\<rparr>] @ rest"
    by blast
  show ?thesis
    by (intro conjI rej p s g f c1 c2 res c3)
qed

text \<open>
  C9. The subprocesses of one call, in order, on the development machine with an earlier
  checkout whose update fails: the classifier's version query, the pull, the version query
  before the clone, and the clone. Each is given a buffer limit. Only the first is given
  a timeout; the other three are started with none.
\<close>

theorem only_the_classifier_probe_has_a_timeout:
  "filter spawns (trace (snd (cloneRepo (dev_host git_pull_fails) ''octocat/Hello-World'' checkout_world))) =
     [Exec ''git --version'' \<lparr>maxBuffer = Some 1048576, timeout = Some 2000\<rparr>,
      Exec (''git -C '' @ quoted ''/tmp/bugsmith/octocat-Hello-World'' @ '' pull'')
        \<lparr>maxBuffer = Some 10485760, timeout = None\<rparr>,
      Exec ''git --version'' \<lparr>maxBuffer = Some 1048576, timeout = None\<rparr>,
      Exec (''git clone https://github.com/octocat/Hello-World.git ''
              @ quoted ''/tmp/bugsmith/octocat-Hello-World'')
        \<lparr>maxBuffer = Some 10485760, timeout = None\<rparr>]"
  by code_simp

text \<open>
  C10. However the call fails, what the caller gets is one plain \<^verbatim>\<open>Error\<close>: the body
  of the outer \<^verbatim>\<open>try\<close> has raised an error, and the message is
  \<^verbatim>\<open>Failed to clone repository\<close>, the repository string, a colon and that error's
  message (\<^verbatim>\<open>Unknown error\<close> in place of an empty message). The error of the body is
  the invalid-format error, the git-is-missing error, a refusal of the file system or a
  failed clone; every error of the body is wrapped in this way, none passes unwrapped.
\<close>

theorem every_failure_is_one_wrapped_error:
  "(\<forall>e. fst (cloneRepo h repo w) = Inl e \<longrightarrow>
      (\<exists>cause. fst (cloneRepo_try h repo w) = Inl (Error cause)
         \<and> e = Error (''Failed to clone repository '' @ repo @ '': ''
                        @ (if cause = [] then ''Unknown error'' else cause))
         \<and> (cause = invalid_format repo \<or> cause = gitMissing
              \<or> fs_refusal h cause \<or> clone_failure h cause)))
   \<and> (\<forall>cause. fst (cloneRepo_try h repo w) = Inl (Error cause) \<longrightarrow>
        fst (cloneRepo h repo w) =
          Inl (Error (''Failed to clone repository '' @ repo @ '': ''
                        @ (if cause = [] then ''Unknown error'' else cause))))"
proof (intro conjI allI impI)
  fix e
  assume failed: "fst (cloneRepo h repo w) = Inl e"
  then obtain e' where body: "fst (cloneRepo_try h repo w) = Inl e'"
    and e: "e = Error (failure_message repo e')"
    unfolding cloneRepo_fst by (cases "fst (cloneRepo_try h repo w)") simp_all
  obtain cause where c: "e' = Error cause" by (cases e')
  from cloneRepo_try_Inl [OF body] c
  have "cause = invalid_format repo \<or> cause = gitMissing
              \<or> fs_refusal h cause \<or> clone_failure h cause"
    by simp
  moreover from e c have "e = Error (''Failed to clone repository '' @ repo @ '': ''
                        @ (if cause = [] then ''Unknown error'' else cause))"
    by (simp add: failure_message_def truthy_def)
  ultimately show "\<exists>cause. fst (cloneRepo_try h repo w) = Inl (Error cause)
         \<and> e = Error (''Failed to clone repository '' @ repo @ '': ''
                        @ (if cause = [] then ''Unknown error'' else cause))
         \<and> (cause = invalid_format repo \<or> cause = gitMissing
              \<or> fs_refusal h cause \<or> clone_failure h cause)"
    using body c by blast
next
  fix cause
  assume "fst (cloneRepo_try h repo w) = Inl (Error cause)"
  then show "fst (cloneRepo h repo w) =
          Inl (Error (''Failed to clone repository '' @ repo @ '': ''
                        @ (if cause = [] then ''Unknown error'' else cause)))"
    unfolding cloneRepo_fst by (simp add: failure_message_def truthy_def)
qed

theorem every_failure_is_one_wrapped_error_witness:
  "fst (cloneRepo_try vercel_host ''a/b/c'' empty_world)
     = Inl (Error ''Invalid repository format: a/b/c. Expected format: owner/repo'')
   \<and> fst (cloneRepo vercel_host ''a/b/c'' empty_world)
     = Inl (Error ''Failed to clone repository a/b/c: Invalid repository format: a/b/c. Expected format: owner/repo'')
   \<and> fst (cloneRepo_try (dev_host git_vanished) ''octocat/Hello-World'' empty_world)
     = Inl (Error ''Git is not installed or not in PATH. Please install Git to use this feature.'')
   \<and> fst (cloneRepo (dev_host git_vanished) ''octocat/Hello-World'' empty_world)
     = Inl (Error ''Failed to clone repository octocat/Hello-World: Git is not installed or not in PATH. Please install Git to use this feature.'')
   \<and> fst (cloneRepo_try (dev_host git_offline)
          ''octocat/Hello-World'' checkout_world)
     = Inl (Error (''Command failed: git clone https://github.com/octocat/Hello-World.git ''
                   @ quoted ''/tmp/bugsmith/octocat-Hello-World'' @ [CHR 0x0A]
                   @ ''fatal: unable to access the remote''))
   \<and> fst (cloneRepo (dev_host git_offline)
          ''octocat/Hello-World'' checkout_world)
     = Inl (Error (''Failed to clone repository octocat/Hello-World: Command failed: git clone https://github.com/octocat/Hello-World.git ''
                   @ quoted ''/tmp/bugsmith/octocat-Hello-World'' @ [CHR 0x0A]
                   @ ''fatal: unable to access the remote''))
   \<and> fst (cloneRepo_try readonly_host ''octocat/Hello-World'' empty_world)
     = Inl (Error ''EROFS: read-only file system, mkdir /tmp/bugsmith'')
   \<and> fst (cloneRepo readonly_host ''octocat/Hello-World'' empty_world)
     = Inl (Error ''Failed to clone repository octocat/Hello-World: EROFS: read-only file system, mkdir /tmp/bugsmith'')
   \<and> (\<exists>cause. fst (cloneRepo_try readonly_host ''octocat/Hello-World'' empty_world) = Inl (Error cause)
         \<and> Error ''Failed to clone repository octocat/Hello-World: EROFS: read-only file system, mkdir /tmp/bugsmith''
             = Error (''Failed to clone repository '' @ ''octocat/Hello-World'' @ '': ''
                        @ (if cause = [] then ''Unknown error'' else cause))
         \<and> (cause = invalid_format ''octocat/Hello-World'' \<or> cause = gitMissing
              \<or> fs_refusal readonly_host cause \<or> clone_failure readonly_host cause))"
proof -
  note claim = every_failure_is_one_wrapped_error
  have b1: "fst (cloneRepo_try vercel_host ''a/b/c'' empty_world)
     = Inl (Error ''Invalid repository format: a/b/c. Expected format: owner/repo'')"
    by code_simp
  from claim [of vercel_host "''a/b/c''" empty_world, THEN conjunct2, rule_format, OF b1]
  have c1: "fst (cloneRepo vercel_host ''a/b/c'' empty_world)
     = Inl (Error ''Failed to clone repository a/b/c: Invalid repository format: a/b/c. Expected format: owner/repo'')"
    by simp
  have b2: "fst (cloneRepo_try (dev_host git_vanished) ''octocat/Hello-World'' empty_world)
     = Inl (Error ''Git is not installed or not in PATH. Please install Git to use this feature.'')"
    by code_simp
  from claim [of "dev_host git_vanished" "''octocat/Hello-World''" empty_world,
      THEN conjunct2, rule_format, OF b2]
  have c2: "fst (cloneRepo (dev_host git_vanished) ''octocat/Hello-World'' empty_world)
     = Inl (Error ''Failed to clone repository octocat/Hello-World: Git is not installed or not in PATH. Please install Git to use this feature.'')"
    by simp
  let ?C = "dev_host git_offline"
  have b3: "fst (cloneRepo_try ?C ''octocat/Hello-World'' checkout_world)
     = Inl (Error (''Command failed: git clone https://github.com/octocat/Hello-World.git ''
                   @ quoted ''/tmp/bugsmith/octocat-Hello-World'' @ [CHR 0x0A]
                   @ ''fatal: unable to access the remote''))"
    by code_simp
  from claim [of ?C "''octocat/Hello-World''" checkout_world, THEN conjunct2, rule_format, OF b3]
  have c3: "fst (cloneRepo ?C ''octocat/Hello-World'' checkout_world)
     = Inl (Error (''Failed to clone repository octocat/Hello-World: Command failed: git clone https://github.com/octocat/Hello-World.git ''
                   @ quoted ''/tmp/bugsmith/octocat-Hello-World'' @ [CHR 0x0A]
                   @ ''fatal: unable to access the remote''))"
    by (simp add: quoted_def)
  have b4: "fst (cloneRepo_try readonly_host ''octocat/Hello-World'' empty_world)
     = Inl (Error ''EROFS: read-only file system, mkdir /tmp/bugsmith'')"
    by code_simp
  from claim [of readonly_host "''octocat/Hello-World''" empty_world,
      THEN conjunct2, rule_format, OF b4]
  have c4: "fst (cloneRepo readonly_host ''octocat/Hello-World'' empty_world)
     = Inl (Error ''Failed to clone repository octocat/Hello-World: EROFS: read-only file system, mkdir /tmp/bugsmith'')"
    by simp
  have c5: "\<exists>cause. fst (cloneRepo_try readonly_host ''octocat/Hello-World'' empty_world) = Inl (Error cause)
         \<and> Error ''Failed to clone repository octocat/Hello-World: EROFS: read-only file system, mkdir /tmp/bugsmith''
             = Error (''Failed to clone repository '' @ ''octocat/Hello-World'' @ '': ''
                        @ (if cause = [] then ''Unknown error'' else cause))
         \<and> (cause = invalid_format ''octocat/Hello-World'' \<or> cause = gitMissing
              \<or> fs_refusal readonly_host cause \<or> clone_failure readonly_host cause)"
    by (rule claim [of readonly_host "''octocat/Hello-World''" empty_world,
          THEN conjunct1, rule_format, OF c4])
  show ?thesis
    by (intro conjI b1 c1 b2 c2 b3 c3 b4 c4 c5)
qed

end
